theory Spec2Isabelle
  imports Complex_Main
begin

section \<open>Drug diffusion simulator: the profile computation and the animation driver\<close>

text \<open>
  The source is one React component, \<^verbatim>\<open>DrugDiffusionSimulator.jsx\<close>. Its computation is the
  closure \<^verbatim>\<open>calcProfile\<close> (lines 29 to 46), which reads the component state \<^verbatim>\<open>D\<close>,
  \<^verbatim>\<open>thickness\<close> and \<^verbatim>\<open>C0\<close> and takes the time \<^verbatim>\<open>t\<close>; its only stateful part is the
  interval callback of lines 51 to 60 and the two buttons. The closure's free variables are
  parameters of the model, in the order \<open>D\<close>, \<open>thickness\<close>, \<open>C0\<close>, \<open>t\<close>.

  The program is \<open>calcProfile\<close>, over \<open>jsnum\<close>, the values of a JavaScript number: a finite
  value, the two infinities, or NaN. Every arithmetic operation follows the special cases of
  ECMAScript and turns a result beyond the largest double into an infinity. What the model
  does not have is the rounding of a finite result to 53 bits, gradual underflow, and the
  sign of zero: a finite result is the exact real number, \<^verbatim>\<open>Math.PI\<close> is \<open>pi\<close>.

  \<open>calcProfile_real\<close> is the same computation over the real numbers. It says which numbers
  the finite results are: where no operation overflows, \<open>calcProfile\<close> returns the values of
  \<open>calcProfile_real\<close> (lemma \<open>calcProfile_refines\<close> below). Outside that range the program
  returns infinities and NaN, which \<open>calcProfile_real\<close> does not have.
\<close>

subsection \<open>JavaScript numbers\<close>

datatype jsnum = Fin real | PInf | NInf | NaN

text \<open>Round-to-nearest yields an infinity from \<open>2^1024 - 2^970\<close> on.\<close>

definition threshold :: real where
  "threshold = (2 ^ 54 - 1) * 2 ^ 970"

definition rnd :: "real \<Rightarrow> jsnum" where
  "rnd r = (if r \<le> - threshold then NInf else if threshold \<le> r then PInf else Fin r)"

fun is_finite :: "jsnum \<Rightarrow> bool" where
  "is_finite (Fin r) = True"
| "is_finite v = False"

fun js_neg :: "jsnum \<Rightarrow> jsnum" where
  "js_neg (Fin r) = Fin (- r)"
| "js_neg PInf = NInf"
| "js_neg NInf = PInf"
| "js_neg NaN = NaN"

fun js_add :: "jsnum \<Rightarrow> jsnum \<Rightarrow> jsnum" where
  "js_add (Fin a) (Fin b) = rnd (a + b)"
| "js_add NaN v = NaN"
| "js_add v NaN = NaN"
| "js_add PInf NInf = NaN"
| "js_add NInf PInf = NaN"
| "js_add PInf v = PInf"
| "js_add v PInf = PInf"
| "js_add NInf v = NInf"
| "js_add v NInf = NInf"

definition js_sub :: "jsnum \<Rightarrow> jsnum \<Rightarrow> jsnum" where
  "js_sub a b = js_add a (js_neg b)"

text \<open>An infinity times zero is NaN; otherwise the sign of the product is the product of the signs.\<close>

fun js_mul :: "jsnum \<Rightarrow> jsnum \<Rightarrow> jsnum" where
  "js_mul (Fin a) (Fin b) = rnd (a * b)"
| "js_mul NaN v = NaN"
| "js_mul v NaN = NaN"
| "js_mul PInf (Fin b) = (if b = 0 then NaN else if 0 < b then PInf else NInf)"
| "js_mul NInf (Fin b) = (if b = 0 then NaN else if 0 < b then NInf else PInf)"
| "js_mul (Fin a) PInf = (if a = 0 then NaN else if 0 < a then PInf else NInf)"
| "js_mul (Fin a) NInf = (if a = 0 then NaN else if 0 < a then NInf else PInf)"
| "js_mul PInf PInf = PInf"
| "js_mul PInf NInf = NInf"
| "js_mul NInf PInf = NInf"
| "js_mul NInf NInf = PInf"

text \<open>
  Zero by zero and infinity by infinity are NaN; a non-zero value by zero is an infinity
  (by the zero \<open>+0\<close>, the only one of the model); a finite value by an infinity is zero.
\<close>

fun js_div :: "jsnum \<Rightarrow> jsnum \<Rightarrow> jsnum" where
  "js_div (Fin a) (Fin b) =
     (if b = 0 then (if a = 0 then NaN else if 0 < a then PInf else NInf) else rnd (a / b))"
| "js_div NaN v = NaN"
| "js_div v NaN = NaN"
| "js_div (Fin a) PInf = Fin 0"
| "js_div (Fin a) NInf = Fin 0"
| "js_div PInf (Fin b) = (if 0 \<le> b then PInf else NInf)"
| "js_div NInf (Fin b) = (if 0 \<le> b then NInf else PInf)"
| "js_div PInf v = NaN"
| "js_div NInf v = NaN"

text \<open>\<^verbatim>\<open>Math.exp\<close>, \<^verbatim>\<open>Math.cos\<close> and \<^verbatim>\<open>Math.pow(b, 2)\<close>.\<close>

fun Math_exp :: "jsnum \<Rightarrow> jsnum" where
  "Math_exp (Fin r) = rnd (exp r)"
| "Math_exp PInf = PInf"
| "Math_exp NInf = Fin 0"
| "Math_exp NaN = NaN"

fun Math_cos :: "jsnum \<Rightarrow> jsnum" where
  "Math_cos (Fin r) = Fin (cos r)"
| "Math_cos v = NaN"

fun Math_pow2 :: "jsnum \<Rightarrow> jsnum" where
  "Math_pow2 (Fin r) = rnd (r ^ 2)"
| "Math_pow2 PInf = PInf"
| "Math_pow2 NInf = PInf"
| "Math_pow2 NaN = NaN"

text \<open>The comparisons \<^verbatim>\<open><\<close> and \<^verbatim>\<open><=\<close> of JavaScript: false as soon as one side is NaN.\<close>

fun js_less :: "jsnum \<Rightarrow> jsnum \<Rightarrow> bool" where
  "js_less (Fin a) (Fin b) = (a < b)"
| "js_less NaN v = False"
| "js_less v NaN = False"
| "js_less v NInf = False"
| "js_less PInf v = False"
| "js_less NInf v = True"
| "js_less v PInf = True"

fun js_le :: "jsnum \<Rightarrow> jsnum \<Rightarrow> bool" where
  "js_le (Fin a) (Fin b) = (a \<le> b)"
| "js_le NaN v = False"
| "js_le v NaN = False"
| "js_le NInf v = True"
| "js_le v PInf = True"
| "js_le v NInf = False"
| "js_le PInf v = False"

subsection \<open>The profile computation\<close>

text \<open>
  One element of the array: \<^verbatim>\<open>{ x: x * 1e6, concentration: c }\<close>. The field \<^verbatim>\<open>x\<close> is
  called \<open>depth\<close> here.
\<close>

record 'a sample =
  depth :: 'a
  concentration :: 'a

text \<open>
  The errors of the documentation. The source has no \<^verbatim>\<open>throw\<close> and no check of any
  argument, so no branch of \<open>calcProfile\<close> returns one.
\<close>

datatype error = InvalidParameter string | InvalidConfiguration

definition points :: nat where
  "points = 80"

definition nTerms :: nat where
  "nTerms = 20"

text \<open>The loop counters are small integers, exact as numbers.\<close>

definition js_nat :: "nat \<Rightarrow> jsnum" where
  "js_nat n = Fin (real n)"

text \<open>\<^verbatim>\<open>2 * n + 1\<close>\<close>

definition odd_js :: "nat \<Rightarrow> jsnum" where
  "odd_js n = js_add (js_mul (Fin 2) (js_nat n)) (Fin 1)"

text \<open>
  The body of the inner loop, lines 36 to 40: the summand
  \<^verbatim>\<open>term * decay * Math.cos(((2 * n + 1) * Math.PI * x) / (2 * thickness))\<close>.
\<close>

definition summand :: "jsnum \<Rightarrow> jsnum \<Rightarrow> jsnum \<Rightarrow> jsnum \<Rightarrow> nat \<Rightarrow> jsnum" where
  "summand D thickness t x n =
     (let term = js_div (Fin 1) (odd_js n);
          decay = Math_exp
            (js_mul
               (js_mul (js_neg D)
                  (Math_pow2 (js_div (js_mul (odd_js n) (Fin pi)) (js_mul (Fin 2) thickness))))
               t)
      in js_mul (js_mul term decay)
           (Math_cos (js_div (js_mul (js_mul (odd_js n) (Fin pi)) x) (js_mul (Fin 2) thickness))))"

text \<open>The inner loop, \<^verbatim>\<open>for (let n = 0; n < nTerms; n++) seriesSum += ...\<close>, from 0.\<close>

definition seriesSum :: "jsnum \<Rightarrow> jsnum \<Rightarrow> jsnum \<Rightarrow> jsnum \<Rightarrow> jsnum" where
  "seriesSum D thickness t x =
     foldl (\<lambda>s n. js_add s (summand D thickness t x n)) (Fin 0) [0..<nTerms]"

text \<open>The body of the outer loop, lines 33 to 43, for the index \<open>i\<close>.\<close>

definition point :: "jsnum \<Rightarrow> jsnum \<Rightarrow> jsnum \<Rightarrow> jsnum \<Rightarrow> nat \<Rightarrow> jsnum sample" where
  "point D thickness C0 t i =
     (let x = js_mul (js_div (js_nat i) (js_nat points)) thickness;
          c = js_mul C0
                (js_sub (Fin 1) (js_mul (js_div (Fin 4) (Fin pi)) (seriesSum D thickness t x)))
      in \<lparr>depth = js_mul x (Fin 1000000), concentration = c\<rparr>)"

text \<open>The outer loop, \<^verbatim>\<open>for (let i = 0; i <= points; i++)\<close>, pushes in index order.\<close>

definition calcProfile :: "jsnum \<Rightarrow> jsnum \<Rightarrow> jsnum \<Rightarrow> jsnum \<Rightarrow> error + jsnum sample list" where
  "calcProfile D thickness C0 t = Inr (map (point D thickness C0 t) [0..<Suc points])"

subsection \<open>The same computation in real arithmetic\<close>

definition summand_real :: "real \<Rightarrow> real \<Rightarrow> real \<Rightarrow> real \<Rightarrow> nat \<Rightarrow> real" where
  "summand_real D thickness t x n =
     (let term = 1 / (2 * real n + 1);
          decay = exp (- D * ((2 * real n + 1) * pi / (2 * thickness)) ^ 2 * t)
      in term * decay * cos (((2 * real n + 1) * pi * x) / (2 * thickness)))"

definition seriesSum_real :: "real \<Rightarrow> real \<Rightarrow> real \<Rightarrow> real \<Rightarrow> real" where
  "seriesSum_real D thickness t x =
     foldl (\<lambda>s n. s + summand_real D thickness t x n) 0 [0..<nTerms]"

definition point_real :: "real \<Rightarrow> real \<Rightarrow> real \<Rightarrow> real \<Rightarrow> nat \<Rightarrow> real sample" where
  "point_real D thickness C0 t i =
     (let x = (real i / real points) * thickness;
          c = C0 * (1 - (4 / pi) * seriesSum_real D thickness t x)
      in \<lparr>depth = x * 1000000, concentration = c\<rparr>)"

definition calcProfile_real :: "real \<Rightarrow> real \<Rightarrow> real \<Rightarrow> real \<Rightarrow> real sample list" where
  "calcProfile_real D thickness C0 t = map (point_real D thickness C0 t) [0..<Suc points]"

text \<open>
  The closed form as the documentation writes it, with \<open>N\<close> terms:
  \<open>c(x,t) = C0 * (1 - (4/pi) * (SUM n < N. (1/(2n+1)) * exp (- D * ((2n+1) * pi / (2L))^2 * t)
  * cos ((2n+1) * pi * x / (2L))))\<close>.
\<close>

definition closed_form :: "nat \<Rightarrow> real \<Rightarrow> real \<Rightarrow> real \<Rightarrow> real \<Rightarrow> real \<Rightarrow> real" where
  "closed_form N D L C0 x t =
     C0 * (1 - (4 / pi) *
       (\<Sum>n<N. (1 / (2 * real n + 1)) * exp (- D * ((2 * real n + 1) * pi / (2 * L)) ^ 2 * t)
                 * cos ((2 * real n + 1) * pi * x / (2 * L))))"

subsection \<open>The animation driver\<close>

text \<open>
  The component state the driver touches: \<^verbatim>\<open>time\<close> and \<^verbatim>\<open>running\<close>. While
  \<^verbatim>\<open>running\<close>, the interval calls \<^verbatim>\<open>setTime((prev) => prev >= maxTime ? 0 : prev + 5)\<close>;
  the Play/Pause button flips \<^verbatim>\<open>running\<close>, Reset sets the time to 0.
\<close>

record driver =
  time :: real
  running :: bool

definition maxTime :: real where
  "maxTime = 3600"

definition advance :: "real \<Rightarrow> real" where
  "advance prev = (if maxTime \<le> prev then 0 else prev + 5)"

datatype event = Tick | PlayPause | Reset

fun step :: "driver \<Rightarrow> event \<Rightarrow> driver" where
  "step s Tick = (if running s then s\<lparr>time := advance (time s)\<rparr> else s)"
| "step s PlayPause = s\<lparr>running := \<not> running s\<rparr>"
| "step s Reset = s\<lparr>time := 0\<rparr>"

definition initial :: driver where
  "initial = \<lparr>time = 0, running = False\<rparr>"

definition run :: "event list \<Rightarrow> driver" where
  "run es = foldl step initial es"

subsection \<open>Auxiliary quantities of the proofs\<close>

text \<open>
  \<open>below10 e r\<close> bounds a real number by a power of ten: the proofs that no operation
  overflows carry such a bound through every product and quotient.
\<close>

definition below10 :: "nat \<Rightarrow> real \<Rightarrow> bool" where
  "below10 e r \<longleftrightarrow> \<bar>r\<bar> \<le> 10 ^ e"

text \<open>
  The sample in the middle of the slab (\<open>i = 40\<close>, \<open>x = L / 2\<close>) for \<open>D = L = C0 = 1\<close>:
  the summand of index \<open>n\<close> at time \<open>t\<close>, its decay factor at \<open>t = 3 / 50\<close>, the sign of
  its cosine, and a rational lower bound of what the summand gains between the times
  \<open>0\<close> and \<open>3 / 50\<close> (up to the factor \<open>sqrt 2 / 2\<close>).
\<close>

definition mid_term :: "real \<Rightarrow> nat \<Rightarrow> real" where
  "mid_term t n = (1 / (2 * real n + 1)) * exp (- 1 * ((2 * real n + 1) * pi / (2 * 1)) ^ 2 * t)
                 * cos ((2 * real n + 1) * pi * (1 / 2) / (2 * 1))"

definition mid_decay :: "nat \<Rightarrow> real" where
  "mid_decay n = exp (- 1 * ((2 * real n + 1) * pi / (2 * 1)) ^ 2 * (3 / 50))"

definition mid_sign :: "nat \<Rightarrow> real" where
  "mid_sign n = (if n mod 4 = 0 \<or> n mod 4 = 3 then 1 else - 1)"

definition mid_gain :: "nat \<Rightarrow> real" where
  "mid_gain n =
     (if n = 0 then - (11 / 50) else if n = 1 then 17 / 75
      else if n mod 4 = 0 \<or> n mod 4 = 3 then - (1 / (2 * real n + 1))
      else (19 / 20) / (2 * real n + 1))"

section \<open>The driver keeps the time within the horizon\<close>

lemma run_snoc: "run (es @ [e]) = step (run es) e"
  by (simp add: run_def)

lemma run_time_grid: "\<exists>k::nat. k \<le> 720 \<and> time (run es) = 5 * real k"
proof (induction es rule: rev_induct)
  case Nil
  have "time (run []) = 5 * real (0::nat)" by (simp add: run_def initial_def)
  then show ?case by blast
next
  case (snoc e es)
  then obtain k :: nat where k: "k \<le> 720" "time (run es) = 5 * real k" by blast
  show ?case
  proof (cases e)
    case Tick
    show ?thesis
    proof (cases "running (run es) \<and> k < 720")
      case True
      then have "time (run (es @ [e])) = 5 * real (Suc k)"
        using k Tick by (simp add: run_snoc advance_def maxTime_def)
      moreover have "Suc k \<le> 720" using True by simp
      ultimately show ?thesis by blast
    next
      case False
      then have "time (run (es @ [e])) = 5 * real k \<or> time (run (es @ [e])) = 5 * real (0::nat)"
        using k Tick by (auto simp add: run_snoc advance_def maxTime_def)
      then show ?thesis using k(1) by (metis le0)
    qed
  next
    case PlayPause
    then show ?thesis using k by (auto simp add: run_snoc)
  next
    case Reset
    then have "time (run (es @ [e])) = 5 * real (0::nat)" by (simp add: run_snoc)
    then show ?thesis by (metis le0)
  qed
qed

text \<open>
  C9. A tick of the running driver adds exactly 5 to a time below the horizon of 3600 and
  sets a time at (or beyond) the horizon to 0; so every state reached from time 0 by ticks,
  Play/Pause and Reset has its time in \<open>[0, 3600]\<close>.
\<close>

theorem driver_time_within_horizon:
  "0 \<le> time (run es) \<and> time (run es) \<le> 3600
   \<and> time (step ((run es)\<lparr>running := True\<rparr>) Tick)
       = (if time (run es) = 3600 then 0 else time (run es) + 5)"
proof -
  obtain k :: nat where k: "k \<le> 720" "time (run es) = 5 * real k"
    using run_time_grid by blast
  then show ?thesis by (auto simp add: advance_def maxTime_def)
qed

section \<open>The exact values\<close>

lemma foldl_add_upt: "foldl (\<lambda>s n. s + f n) a [0..<N] = a + (\<Sum>n<N. (f n :: real))"
  by (induction N) simp_all

lemma seriesSum_real_sum:
  "seriesSum_real D L t x = (\<Sum>n<nTerms. summand_real D L t x n)"
  by (simp add: seriesSum_real_def foldl_add_upt)

lemma length_calcProfile_real: "length (calcProfile_real D L C0 t) = Suc points"
  by (simp add: calcProfile_real_def)

lemma nth_calcProfile_real:
  "i \<le> points \<Longrightarrow> calcProfile_real D L C0 t ! i = point_real D L C0 t i"
  unfolding calcProfile_real_def by (simp only: nth_map_upt diff_zero less_Suc_eq_le add_0)

lemma concentration_point_real:
  "concentration (point_real D L C0 t i) = closed_form nTerms D L C0 (real i / real points * L) t"
  by (simp add: point_real_def closed_form_def seriesSum_real_sum summand_real_def Let_def)

lemma depth_point_real: "depth (point_real D L C0 t i) = real i / real points * L * 1000000"
  by (simp add: point_real_def Let_def)

subsection \<open>Depths\<close>




lemma sorted_wrt_map_upt:
  assumes "\<And>i j. i < j \<Longrightarrow> j < n \<Longrightarrow> P (f i) (f j)"
  shows "sorted_wrt P (map f [0..<n])"
  using assms by (simp add: sorted_wrt_iff_nth_less)

subsection \<open>Rescaling of diffusivity and time\<close>

text \<open>
  The profile depends on \<open>D\<close> and \<open>t\<close> through the product \<open>D * t\<close> only, and every summand
  at the surface decreases strictly with \<open>D * t\<close>.
\<close>

lemma rescaling_differs_real:
  "concentration (calcProfile_real (4 * 1) 1 1 1 ! 0) \<noteq> concentration (calcProfile_real 1 1 1 (1 / 4) ! 0)"
proof -
  let ?f = "\<lambda>s n. (1 / (2 * real n + 1)) * exp (- s * ((2 * real n + 1) * pi / 2) ^ 2)"
  have lt: "?f 4 n < ?f (1/4) n" for n
  proof -
    have "0 < ((2 * real n + 1) * pi / 2) ^ 2" by simp
    then have "- 4 * ((2 * real n + 1) * pi / 2) ^ 2 < - (1/4) * ((2 * real n + 1) * pi / 2) ^ 2"
      by simp
    then have "exp (- 4 * ((2 * real n + 1) * pi / 2) ^ 2) < exp (- (1/4) * ((2 * real n + 1) * pi / 2) ^ 2)"
      by (simp only: exp_less_cancel_iff)
    moreover have "0 < 1 / (2 * real n + 1)" by simp
    ultimately show ?thesis by (simp only: mult_strict_left_mono)
  qed
  have "(\<Sum>n<nTerms. ?f 4 n) < (\<Sum>n<nTerms. ?f (1/4) n)"
  proof (rule sum_strict_mono)
    have "0 \<in> {..<nTerms}" by (simp add: nTerms_def)
    then show "{..<nTerms} \<noteq> {}" by blast
  qed (simp_all only: finite_lessThan lt)
  then have "closed_form nTerms 4 1 1 0 1 \<noteq> closed_form nTerms 1 1 1 0 (1/4)"
    by (simp add: closed_form_def)
  then show ?thesis
    by (simp add: nth_calcProfile_real concentration_point_real)
qed

lemma summand_real_rescale:
  "summand_real (4 * D) L t x n = summand_real D L (4 * t) x n"
  by (simp add: summand_real_def algebra_simps)

lemma calcProfile_real_rescale:
  "calcProfile_real (4 * D) L C0 t = calcProfile_real D L C0 (4 * t)"
  by (simp add: calcProfile_real_def point_real_def seriesSum_real_def summand_real_rescale)

subsection \<open>Behaviour in time\<close>

text \<open>
  At an interior depth the truncated sum need not be monotone in \<open>t\<close>. At the middle of the slab
  the cosines are \<open>sqrt 2 / 2\<close> up to the sign \<open>+ - - + + - - + ...\<close>, and between \<open>t = 0\<close> and
  \<open>t = 3 / 50\<close> (for \<open>D = L = 1\<close>) the sum of the series grows, so the concentration falls.
\<close>

lemma pi_ge_3: "3 \<le> pi"
proof -
  have "sin (pi / 6) \<le> pi / 6" by (rule sin_x_le_x) simp
  then show ?thesis by (simp add: sin_30)
qed

lemma cos_odd_quarter_pi:
  "cos ((2 * real n + 1) * pi / 4)
   = (if n mod 4 = 0 \<or> n mod 4 = 3 then sqrt 2 / 2 else - (sqrt 2 / 2))"
proof -
  define q r where "q = n div 4" and "r = n mod 4"
  have n: "n = 4 * q + r" and r: "r < 4" by (simp_all add: q_def r_def)
  have arg: "(2 * real n + 1) * pi / 4 = (2 * real r + 1) * pi / 4 + 2 * real q * pi"
    by (simp add: n algebra_simps)
  have per: "cos ((2 * real n + 1) * pi / 4) = cos ((2 * real r + 1) * pi / 4)"
    unfolding arg by (simp add: cos_add)
  have c3: "cos (3 * pi / 4) = - (sqrt 2 / 2)"
    using cos_pi_minus[of "pi / 4"] by (simp add: cos_45)
  have c5: "cos (5 * pi / 4) = - (sqrt 2 / 2)"
    using cos_periodic_pi[of "pi / 4"] by (simp add: cos_45)
  have c7: "cos (7 * pi / 4) = sqrt 2 / 2"
    using cos_2pi_minus[of "pi / 4"] by (simp add: cos_45)
  consider "r = 0" | "r = 1" | "r = 2" | "r = 3" using r by linarith
  then show ?thesis
    unfolding per r_def[symmetric]
    by cases (simp_all add: cos_45 c3 c5 c7)
qed

lemma exp_low: "39 / 50 \<le> exp (- (6 / 25) :: real)"
proof -
  have "(1 - (6 / 25) / real 16) ^ 16 \<le> exp (- (6 / 25))"
    by (rule exp_ge_one_minus_x_over_n_power_n) simp_all
  moreover have "(39 / 50 :: real) \<le> (1 - (6 / 25) / real 16) ^ 16"
    by (simp add: power_divide)
  ultimately show ?thesis by linarith
qed

lemma exp_up_inverse:
  fixes y b :: real
  assumes "0 < b" "b \<le> (1 + y / real 16) ^ 16" "0 \<le> y"
  shows "exp (- y) \<le> 1 / b"
proof -
  have "(1 + y / real 16) ^ 16 \<le> exp y"
    using assms(3) by (intro exp_ge_one_plus_x_over_n_power_n) simp_all
  then have "b \<le> exp y" using assms(2) by linarith
  then have "inverse (exp y) \<le> inverse b" using assms(1) by (rule le_imp_inverse_le)
  then show ?thesis by (simp add: exp_minus inverse_eq_divide)
qed

lemma exp_up9: "exp (- (243 / 200) :: real) \<le> 8 / 25"
  using exp_up_inverse[of "25 / 8" "243 / 200"] by (simp add: power_divide)

lemma exp_up25: "exp (- (27 / 8) :: real) \<le> 1 / 20"
  using exp_up_inverse[of 20 "27 / 8"] by (simp add: power_divide)

lemma mid_decay_arg: "- 1 * ((2 * real n + 1) * pi / (2 * 1)) ^ 2 * (3 / 50)
   = - ((2 * real n + 1) ^ 2 * pi ^ 2 * (3 / 200))"
  by (simp add: power_mult_distrib power_divide)

lemma pi_sq_bounds: "9 \<le> pi ^ 2" "pi ^ 2 \<le> 16"
proof -
  have "3 ^ 2 \<le> pi ^ 2" by (rule power_mono) (simp_all add: pi_ge_3)
  then show "9 \<le> pi ^ 2" by simp
  have "pi ^ 2 \<le> 4 ^ 2" by (rule power_mono) (simp_all add: pi_less_4 less_imp_le)
  then show "pi ^ 2 \<le> 16" by simp
qed

lemma neg_scaled_mono: "(c::real) \<le> a \<Longrightarrow> - (a * (3 / 200)) \<le> - (c * (3 / 200))"
  by simp

lemma mid_decay_0: "39 / 50 \<le> mid_decay 0"
proof -
  have "- (6 / 25) \<le> - ((2 * real 0 + 1) ^ 2 * pi ^ 2 * (3 / 200))"
    using pi_sq_bounds(2) by simp
  then have "exp (- (6 / 25)) \<le> mid_decay 0"
    unfolding mid_decay_def mid_decay_arg by (simp only: exp_le_cancel_iff)
  then show ?thesis using exp_low by linarith
qed

lemma mid_decay_ge2:
  assumes "2 \<le> n"
  shows "mid_decay n \<le> 1 / 20"
proof -
  have "5 \<le> 2 * real n + 1" using assms by simp
  then have "5 ^ 2 \<le> (2 * real n + 1) ^ 2" by (intro power_mono) simp_all
  then have "5 ^ 2 * 9 \<le> (2 * real n + 1) ^ 2 * pi ^ 2"
    using pi_sq_bounds(1) by (intro mult_mono) simp_all
  then have "- ((2 * real n + 1) ^ 2 * pi ^ 2 * (3 / 200)) \<le> - (5 ^ 2 * 9 * (3 / 200))"
    by (rule neg_scaled_mono)
  also have "- (5 ^ 2 * 9 * (3 / 200)) = - (27 / 8 :: real)" by simp
  finally have "- ((2 * real n + 1) ^ 2 * pi ^ 2 * (3 / 200)) \<le> - (27 / 8)" .
  then have "mid_decay n \<le> exp (- (27 / 8))"
    unfolding mid_decay_def mid_decay_arg by (simp only: exp_le_cancel_iff)
  then show ?thesis using exp_up25 by linarith
qed

lemma mid_decay_1: "mid_decay 1 \<le> 8 / 25"
proof -
  have "- ((2 * real 1 + 1) ^ 2 * pi ^ 2 * (3 / 200)) \<le> - (243 / 200)"
    using pi_sq_bounds(1) by simp
  then have "mid_decay 1 \<le> exp (- (243 / 200))"
    unfolding mid_decay_def mid_decay_arg by (simp only: exp_le_cancel_iff)
  then show ?thesis using exp_up9 by linarith
qed

lemma mid_decay_pos: "0 \<le> mid_decay n"
  by (simp add: mid_decay_def)

lemma mid_gain_le: "mid_gain n \<le> mid_sign n * (mid_decay n - 1) / (2 * real n + 1)"
proof -
  consider "n = 0" | "n = 1" | "2 \<le> n" "n mod 4 = 0 \<or> n mod 4 = 3"
    | "2 \<le> n" "\<not> (n mod 4 = 0 \<or> n mod 4 = 3)" by linarith
  then show ?thesis
  proof cases
    case 1
    then show ?thesis using mid_decay_0 by (simp add: mid_gain_def mid_sign_def)
  next
    case 2
    then show ?thesis using mid_decay_1 by (simp add: mid_gain_def mid_sign_def)
  next
    case 3
    have "- 1 \<le> mid_decay n - 1" using mid_decay_pos[of n] by simp
    then have "- 1 / (2 * real n + 1) \<le> (mid_decay n - 1) / (2 * real n + 1)"
      by (intro divide_right_mono) simp_all
    then show ?thesis using 3 by (simp add: mid_gain_def mid_sign_def)
  next
    case 4
    have "19 / 20 \<le> - (mid_decay n - 1)" using mid_decay_ge2[OF 4(1)] by simp
    then have "(19 / 20) / (2 * real n + 1) \<le> - (mid_decay n - 1) / (2 * real n + 1)"
      by (intro divide_right_mono) simp_all
    then show ?thesis using 4 by (simp add: mid_gain_def mid_sign_def)
  qed
qed

lemma mid_gain_sum: "0 < (\<Sum>n<20. mid_gain n)"
  by (simp add: mid_gain_def lessThan_nat_numeral lessThan_Suc)

lemma mid_term_diff:
  "mid_term (3 / 50) n - mid_term 0 n
   = (sqrt 2 / 2) * (mid_sign n * (mid_decay n - 1) / (2 * real n + 1))"
proof -
  have arg: "(2 * real n + 1) * pi * (1 / 2) / (2 * 1) = (2 * real n + 1) * pi / 4" by simp
  have c: "cos ((2 * real n + 1) * pi * (1 / 2) / (2 * 1)) = mid_sign n * (sqrt 2 / 2)"
    unfolding arg cos_odd_quarter_pi mid_sign_def by simp
  have "mid_term (3 / 50) n - mid_term 0 n
        = (1 / (2 * real n + 1)) * (mid_decay n - 1) * (mid_sign n * (sqrt 2 / 2))"
    unfolding mid_term_def c mid_decay_def by (simp add: algebra_simps)
  then show ?thesis by simp
qed

lemma mid_sum_increases: "(\<Sum>n<20. mid_term 0 n) < (\<Sum>n<20. mid_term (3 / 50) n)"
proof -
  have "(\<Sum>n<20. mid_term (3 / 50) n) - (\<Sum>n<20. mid_term 0 n)
        = (\<Sum>n<20. mid_term (3 / 50) n - mid_term 0 n)"
    by (simp only: sum_subtractf)
  also have "\<dots> = (sqrt 2 / 2) * (\<Sum>n<20. mid_sign n * (mid_decay n - 1) / (2 * real n + 1))"
    by (simp only: mid_term_diff sum_distrib_left)
  finally have eq: "(\<Sum>n<20. mid_term (3 / 50) n) - (\<Sum>n<20. mid_term 0 n)
        = (sqrt 2 / 2) * (\<Sum>n<20. mid_sign n * (mid_decay n - 1) / (2 * real n + 1))" .
  have "(\<Sum>n<20. mid_gain n) \<le> (\<Sum>n<20. mid_sign n * (mid_decay n - 1) / (2 * real n + 1))"
    by (rule sum_mono) (rule mid_gain_le)
  then have "0 < (\<Sum>n<20. mid_sign n * (mid_decay n - 1) / (2 * real n + 1))"
    using mid_gain_sum by linarith
  then have "0 < (sqrt 2 / 2) * (\<Sum>n<20. mid_sign n * (mid_decay n - 1) / (2 * real n + 1))"
    by (intro mult_pos_pos) simp_all
  then show ?thesis using eq by linarith
qed

lemma midpoint_decreases_real:
  "\<not> concentration (calcProfile_real 1 1 1 0 ! 40)
       \<le> concentration (calcProfile_real 1 1 1 (3 / 50) ! 40)"
proof -
  have c: "concentration (calcProfile_real 1 1 1 t ! 40)
           = 1 * (1 - (4 / pi) * (\<Sum>n<20. mid_term t n))" for t
    by (simp add: nth_calcProfile_real concentration_point_real closed_form_def mid_term_def
        nTerms_def points_def)
  have "(4 / pi) * (\<Sum>n<20. mid_term 0 n) < (4 / pi) * (\<Sum>n<20. mid_term (3 / 50) n)"
    using mid_sum_increases by (intro mult_strict_left_mono) simp_all
  then show ?thesis unfolding c mult_1 by linarith
qed

text \<open>At the surface every cosine is 1 and every summand decays.\<close>

lemma surface_monotone_real:
  assumes "0 < D" "0 \<le> C0" "t1 \<le> t2"
  shows "concentration (calcProfile_real D L C0 t1 ! 0)
           \<le> concentration (calcProfile_real D L C0 t2 ! 0)"
proof -
  let ?k = "\<lambda>n. 2 * real n + 1"
  let ?f = "\<lambda>t n. (1 / ?k n) * exp (- D * (?k n * pi / (2 * L)) ^ 2 * t) * cos (?k n * pi * 0 / (2 * L))"
  have step: "?f t2 n \<le> ?f t1 n" for n
  proof -
    have "0 \<le> D * (?k n * pi / (2 * L)) ^ 2" using assms(1) by simp
    then have "D * (?k n * pi / (2 * L)) ^ 2 * t1 \<le> D * (?k n * pi / (2 * L)) ^ 2 * t2"
      using assms(3) by (rule mult_left_mono[rotated])
    then have "exp (- D * (?k n * pi / (2 * L)) ^ 2 * t2) \<le> exp (- D * (?k n * pi / (2 * L)) ^ 2 * t1)"
      by simp
    then have "(1 / ?k n) * exp (- D * (?k n * pi / (2 * L)) ^ 2 * t2)
               \<le> (1 / ?k n) * exp (- D * (?k n * pi / (2 * L)) ^ 2 * t1)"
      by (intro mult_left_mono) simp_all
    then show ?thesis by simp
  qed
  have "(\<Sum>n<nTerms. ?f t2 n) \<le> (\<Sum>n<nTerms. ?f t1 n)"
    by (rule sum_mono) (rule step)
  then have "(4 / pi) * (\<Sum>n<nTerms. ?f t2 n) \<le> (4 / pi) * (\<Sum>n<nTerms. ?f t1 n)"
    by (intro mult_left_mono) simp_all
  then have "1 - (4 / pi) * (\<Sum>n<nTerms. ?f t1 n) \<le> 1 - (4 / pi) * (\<Sum>n<nTerms. ?f t2 n)"
    by linarith
  then have "C0 * (1 - (4 / pi) * (\<Sum>n<nTerms. ?f t1 n)) \<le> C0 * (1 - (4 / pi) * (\<Sum>n<nTerms. ?f t2 n))"
    using assms(2) by (rule mult_left_mono)
  then show ?thesis
    by (simp add: nth_calcProfile_real concentration_point_real closed_form_def)
qed

section \<open>The profile on JavaScript numbers\<close>

lemma threshold_bounds: "10 ^ 308 < threshold" "threshold < 2 * 10 ^ 308"
  by (simp_all add: threshold_def)

lemma rnd_below: "\<bar>r\<bar> \<le> b \<Longrightarrow> b < threshold \<Longrightarrow> rnd r = Fin r"
  by (auto simp add: rnd_def abs_le_iff)

lemma rnd_small: "below10 308 r \<Longrightarrow> rnd r = Fin r"
  unfolding below10_def by (erule rnd_below) (rule threshold_bounds(1))

lemma below10_le: "0 \<le> r \<Longrightarrow> r \<le> 10 ^ e \<Longrightarrow> below10 e r"
  by (simp add: below10_def)

lemma below10_mono: "below10 a r \<Longrightarrow> a \<le> b \<Longrightarrow> below10 b r"
proof -
  assume "below10 a r" "a \<le> b"
  then have "\<bar>r\<bar> \<le> 10 ^ a" "(10::real) ^ a \<le> 10 ^ b"
    by (simp_all add: below10_def power_increasing)
  then show ?thesis unfolding below10_def by (rule order_trans)
qed

lemma below10_neg: "below10 a r \<Longrightarrow> below10 a (- r)"
  by (simp add: below10_def)

lemma below10_mult: "below10 a x \<Longrightarrow> below10 b y \<Longrightarrow> below10 (a + b) (x * y)"
  unfolding below10_def abs_mult power_add by (rule mult_mono) simp_all

lemma below10_pow2: "below10 a x \<Longrightarrow> below10 (a + a) (x ^ 2)"
  unfolding power2_eq_square by (rule below10_mult)

lemma below10_div:
  assumes "below10 a x" "1 / 10 ^ b \<le> \<bar>y\<bar>"
  shows "below10 (a + b) (x / y)"
proof -
  have pos: "(0::real) < 1 / 10 ^ b" by simp
  then have y: "0 < \<bar>y\<bar>" using assms(2) by (rule less_le_trans)
  have "1 / \<bar>y\<bar> \<le> 1 / (1 / 10 ^ b)"
    using assms(2) pos by (intro divide_left_mono mult_pos_pos y) simp_all
  then have "1 / \<bar>y\<bar> \<le> 10 ^ b" by simp
  then have "\<bar>x\<bar> * (1 / \<bar>y\<bar>) \<le> 10 ^ a * 10 ^ b"
    using assms(1) y unfolding below10_def by (intro mult_mono) simp_all
  then show ?thesis by (simp add: below10_def power_add)
qed

lemma below10_add: "below10 a x \<Longrightarrow> below10 a y \<Longrightarrow> below10 (Suc a) (x + y)"
proof -
  assume "below10 a x" "below10 a y"
  then have "\<bar>x + y\<bar> \<le> 10 ^ a + 10 ^ a" unfolding below10_def by linarith
  also have "\<dots> \<le> 10 * 10 ^ a" by simp
  finally show ?thesis by (simp add: below10_def)
qed

lemma below10_diff: "below10 a x \<Longrightarrow> below10 a y \<Longrightarrow> below10 (Suc a) (x - y)"
  using below10_add[of a x "- y"] by (simp add: below10_neg)

lemma below10_unit: "\<bar>r\<bar> \<le> 1 \<Longrightarrow> below10 0 r"
  by (simp add: below10_def)

lemma js_mul_Fin: "below10 308 (a * b) \<Longrightarrow> js_mul (Fin a) (Fin b) = Fin (a * b)"
  by (simp only: js_mul.simps rnd_small)

lemma js_div_Fin: "b \<noteq> 0 \<Longrightarrow> below10 308 (a / b) \<Longrightarrow> js_div (Fin a) (Fin b) = Fin (a / b)"
  by (simp only: js_div.simps rnd_small if_False)

lemma js_add_Fin: "below10 308 (a + b) \<Longrightarrow> js_add (Fin a) (Fin b) = Fin (a + b)"
  by (simp only: js_add.simps rnd_small)

lemma js_sub_Fin: "below10 308 (a - b) \<Longrightarrow> js_sub (Fin a) (Fin b) = Fin (a - b)"
  by (simp add: js_sub_def rnd_small)

lemma Math_pow2_Fin: "below10 308 (r ^ 2) \<Longrightarrow> Math_pow2 (Fin r) = Fin (r ^ 2)"
  by (simp only: Math_pow2.simps rnd_small)

lemma Math_exp_Fin: "r \<le> 0 \<Longrightarrow> Math_exp (Fin r) = Fin (exp r)"
proof -
  assume "r \<le> 0"
  then have "\<bar>exp r\<bar> \<le> 1" by simp
  then have "below10 0 (exp r)" by (rule below10_unit)
  then have "below10 308 (exp r)" by (rule below10_mono) simp
  then show ?thesis by (simp only: Math_exp.simps rnd_small)
qed

lemma odd_js_Fin:
  assumes "n < nTerms"
  shows "odd_js n = Fin (2 * real n + 1)"
proof -
  have n: "real n \<le> 19" using assms by (simp add: nTerms_def)
  have "below10 2 (2 * real n)" using n by (intro below10_le) simp_all
  then have "below10 308 (2 * real n)" by (rule below10_mono) simp
  then have a: "js_mul (Fin 2) (Fin (real n)) = Fin (2 * real n)" by (rule js_mul_Fin)
  have "below10 2 (2 * real n + 1)" using n by (intro below10_le) simp_all
  then have "below10 308 (2 * real n + 1)" by (rule below10_mono) simp
  then have "js_add (Fin (2 * real n)) (Fin 1) = Fin (2 * real n + 1)" by (rule js_add_Fin)
  then show ?thesis by (simp only: odd_js_def js_nat_def a)
qed

lemma below10_pi: "below10 1 pi"
  using pi_less_4 by (intro below10_le) simp_all

lemma summand_refines:
  assumes D: "0 < D" "D \<le> 10 ^ 50" and L: "1 / 10 ^ 100 \<le> L" "L \<le> 10 ^ 100"
    and t: "0 \<le> t" "t \<le> 10 ^ 50" and x: "0 \<le> x" "x \<le> L" and n: "n < nTerms"
  shows "summand (Fin D) (Fin L) (Fin t) (Fin x) n = Fin (summand_real D L t x n)
         \<and> \<bar>summand_real D L t x n\<bar> \<le> 1"
proof -
  define k where "k = 2 * real n + 1"
  have k: "1 \<le> k" "k \<le> 39" using n by (simp_all add: k_def nTerms_def)
  have odd: "odd_js n = Fin k" unfolding k_def using n by (rule odd_js_Fin)
  have "(0::real) < 1 / 10 ^ 100" by simp
  then have Lpos: "0 < L" using L(1) by (rule less_le_trans)
  have bk: "below10 2 k" using k by (intro below10_le) simp_all
  have bL: "below10 100 L" using Lpos L(2) by (intro below10_le) simp_all
  have bx: "below10 100 x" using x L(2) by (intro below10_le) simp_all
  have bD: "below10 50 D" using D by (intro below10_le) simp_all
  have bt: "below10 50 t" using t by (intro below10_le) simp_all
  have low: "1 / 10 ^ 100 \<le> \<bar>2 * L\<bar>" using L(1) Lpos by simp
  have L2: "2 * L \<noteq> 0" using Lpos by simp
  have bkpi: "below10 (2 + 1) (k * pi)" using bk below10_pi by (rule below10_mult)
  have b2L: "below10 (1 + 100) (2 * L)"
    by (rule below10_mult[OF _ bL]) (simp add: below10_def)
  have bq: "below10 (2 + 1 + 100) (k * pi / (2 * L))" using bkpi low by (rule below10_div)
  have bq2: "below10 (2 + 1 + 100 + (2 + 1 + 100)) ((k * pi / (2 * L)) ^ 2)"
    using bq by (rule below10_pow2)
  have bDq: "below10 (50 + (2 + 1 + 100 + (2 + 1 + 100))) (- D * (k * pi / (2 * L)) ^ 2)"
    using below10_neg[OF bD] bq2 by (rule below10_mult)
  have bDqt: "below10 (50 + (2 + 1 + 100 + (2 + 1 + 100)) + 50) (- D * (k * pi / (2 * L)) ^ 2 * t)"
    using bDq bt by (rule below10_mult)
  have bkpix: "below10 (2 + 1 + 100) (k * pi * x)" using bkpi bx by (rule below10_mult)
  have barg: "below10 (2 + 1 + 100 + 100) (k * pi * x / (2 * L))"
    using bkpix low by (rule below10_div)
  have e1: "js_mul (Fin k) (Fin pi) = Fin (k * pi)"
    by (rule js_mul_Fin, rule below10_mono[OF bkpi]) simp
  have e2: "js_mul (Fin 2) (Fin L) = Fin (2 * L)"
    by (rule js_mul_Fin, rule below10_mono[OF b2L]) simp
  have e3: "js_div (Fin (k * pi)) (Fin (2 * L)) = Fin (k * pi / (2 * L))"
    by (rule js_div_Fin[OF L2], rule below10_mono[OF bq]) simp
  have e4: "Math_pow2 (Fin (k * pi / (2 * L))) = Fin ((k * pi / (2 * L)) ^ 2)"
    by (rule Math_pow2_Fin, rule below10_mono[OF bq2]) simp
  have e5: "js_mul (Fin (- D)) (Fin ((k * pi / (2 * L)) ^ 2)) = Fin (- D * (k * pi / (2 * L)) ^ 2)"
    by (rule js_mul_Fin, rule below10_mono[OF bDq]) simp
  have e6: "js_mul (Fin (- D * (k * pi / (2 * L)) ^ 2)) (Fin t) = Fin (- D * (k * pi / (2 * L)) ^ 2 * t)"
    by (rule js_mul_Fin, rule below10_mono[OF bDqt]) simp
  have "0 \<le> D * (k * pi / (2 * L)) ^ 2 * t" using D(1) t(1) by simp
  then have neg: "- D * (k * pi / (2 * L)) ^ 2 * t \<le> 0" by simp
  have e7: "Math_exp (Fin (- D * (k * pi / (2 * L)) ^ 2 * t)) = Fin (exp (- D * (k * pi / (2 * L)) ^ 2 * t))"
    using neg by (rule Math_exp_Fin)
  have dec: "\<bar>exp (- D * (k * pi / (2 * L)) ^ 2 * t)\<bar> \<le> 1" using neg by simp
  have k0: "k \<noteq> 0" using k(1) by simp
  have trm: "\<bar>1 / k\<bar> \<le> 1" using k(1) by simp
  have e8: "js_div (Fin 1) (Fin k) = Fin (1 / k)"
    by (rule js_div_Fin[OF k0], rule below10_mono[OF below10_unit[OF trm]]) simp
  have td: "\<bar>1 / k * exp (- D * (k * pi / (2 * L)) ^ 2 * t)\<bar> \<le> 1 * 1"
    unfolding abs_mult using trm dec by (intro mult_mono) simp_all
  then have td1: "\<bar>1 / k * exp (- D * (k * pi / (2 * L)) ^ 2 * t)\<bar> \<le> 1" by simp
  have e9: "js_mul (Fin (1 / k)) (Fin (exp (- D * (k * pi / (2 * L)) ^ 2 * t)))
            = Fin (1 / k * exp (- D * (k * pi / (2 * L)) ^ 2 * t))"
    by (rule js_mul_Fin, rule below10_mono[OF below10_unit[OF td1]]) simp
  have e10: "js_mul (Fin (k * pi)) (Fin x) = Fin (k * pi * x)"
    by (rule js_mul_Fin, rule below10_mono[OF bkpix]) simp
  have e11: "js_div (Fin (k * pi * x)) (Fin (2 * L)) = Fin (k * pi * x / (2 * L))"
    by (rule js_div_Fin[OF L2], rule below10_mono[OF barg]) simp
  have "\<bar>1 / k * exp (- D * (k * pi / (2 * L)) ^ 2 * t) * cos (k * pi * x / (2 * L))\<bar> \<le> 1 * 1"
    unfolding abs_mult[of _ "cos _"] using td1 by (intro mult_mono) simp_all
  then have all1: "\<bar>1 / k * exp (- D * (k * pi / (2 * L)) ^ 2 * t) * cos (k * pi * x / (2 * L))\<bar> \<le> 1"
    by simp
  have e12: "js_mul (Fin (1 / k * exp (- D * (k * pi / (2 * L)) ^ 2 * t))) (Fin (cos (k * pi * x / (2 * L))))
             = Fin (1 / k * exp (- D * (k * pi / (2 * L)) ^ 2 * t) * cos (k * pi * x / (2 * L)))"
    by (rule js_mul_Fin, rule below10_mono[OF below10_unit[OF all1]]) simp
  have r: "summand_real D L t x n
           = 1 / k * exp (- D * (k * pi / (2 * L)) ^ 2 * t) * cos (k * pi * x / (2 * L))"
    by (simp only: summand_real_def Let_def k_def)
  have "summand (Fin D) (Fin L) (Fin t) (Fin x) n
        = Fin (1 / k * exp (- D * (k * pi / (2 * L)) ^ 2 * t) * cos (k * pi * x / (2 * L)))"
    by (simp only: summand_def Let_def odd js_neg.simps Math_cos.simps
        e1 e2 e3 e4 e5 e6 e7 e8 e9 e10 e11 e12)
  then show ?thesis using all1 by (simp only: r)
qed


lemma partial_sum_refines:
  assumes D: "0 < D" "D \<le> 10 ^ 50" and L: "1 / 10 ^ 100 \<le> L" "L \<le> 10 ^ 100"
    and t: "0 \<le> t" "t \<le> 10 ^ 50" and x: "0 \<le> x" "x \<le> L"
  shows "N \<le> nTerms \<Longrightarrow>
         foldl (\<lambda>s n. js_add s (summand (Fin D) (Fin L) (Fin t) (Fin x) n)) (Fin 0) [0..<N]
           = Fin (\<Sum>n<N. summand_real D L t x n)
         \<and> \<bar>\<Sum>n<N. summand_real D L t x n\<bar> \<le> real N"
proof (induction N)
  case 0
  show ?case by simp
next
  case (Suc N)
  then have n: "N < nTerms" and N: "N \<le> nTerms" by simp_all
  note s = summand_refines[OF D L t x n]
  note ih = Suc.IH[OF N]
  have b: "\<bar>(\<Sum>n<N. summand_real D L t x n) + summand_real D L t x N\<bar> \<le> real N + 1"
    using s ih by linarith
  have "real N + 1 \<le> 10 ^ 2" using n by (simp add: nTerms_def)
  then have "below10 2 ((\<Sum>n<N. summand_real D L t x n) + summand_real D L t x N)"
    using b unfolding below10_def by linarith
  then have "below10 308 ((\<Sum>n<N. summand_real D L t x n) + summand_real D L t x N)"
    by (rule below10_mono) simp
  then have "js_add (Fin (\<Sum>n<N. summand_real D L t x n)) (Fin (summand_real D L t x N))
        = Fin ((\<Sum>n<N. summand_real D L t x n) + summand_real D L t x N)"
    by (rule js_add_Fin)
  then show ?case using s ih b by simp
qed

lemma seriesSum_refines:
  assumes D: "0 < D" "D \<le> 10 ^ 50" and L: "1 / 10 ^ 100 \<le> L" "L \<le> 10 ^ 100"
    and t: "0 \<le> t" "t \<le> 10 ^ 50" and x: "0 \<le> x" "x \<le> L"
  shows "seriesSum (Fin D) (Fin L) (Fin t) (Fin x) = Fin (seriesSum_real D L t x)
         \<and> \<bar>seriesSum_real D L t x\<bar> \<le> 20"
proof -
  have s: "seriesSum_real D L t x = (\<Sum>n<nTerms. summand_real D L t x n)"
    by (simp add: seriesSum_real_def foldl_add_upt)
  show ?thesis
    using partial_sum_refines[OF assms, of nTerms]
    unfolding seriesSum_def s by (simp add: nTerms_def)
qed

lemma js_mul_NaN: "js_mul v NaN = NaN"
  by (cases v) simp_all

lemma js_sub_NaN: "js_sub v NaN = NaN"
  by (cases v) (simp_all add: js_sub_def)

lemma foldl_js_add_NaN: "foldl (\<lambda>s n. js_add s (f n)) NaN ns = NaN"
  by (induction ns) simp_all

lemma js_mul_FinI: "below10 e (a * b) \<Longrightarrow> e \<le> 308 \<Longrightarrow> js_mul (Fin a) (Fin b) = Fin (a * b)"
  by (rule js_mul_Fin) (rule below10_mono)

lemma js_div_FinI:
  "below10 e (a / b) \<Longrightarrow> e \<le> 308 \<Longrightarrow> b \<noteq> 0 \<Longrightarrow> js_div (Fin a) (Fin b) = Fin (a / b)"
  by (rule js_div_Fin, assumption) (rule below10_mono)

lemma js_sub_FinI: "below10 e (a - b) \<Longrightarrow> e \<le> 308 \<Longrightarrow> js_sub (Fin a) (Fin b) = Fin (a - b)"
  by (rule js_sub_Fin) (rule below10_mono)

lemma nth_calcProfile:
  "i \<le> points \<Longrightarrow> projr (calcProfile D L C t) ! i = point D L C t i"
  unfolding calcProfile_def sum.sel
  by (simp only: nth_map_upt diff_zero less_Suc_eq_le add_0)

lemma sample_index:
  assumes "i \<le> points"
  shows "js_div (js_nat i) (js_nat points) = Fin (real i / real points)"
    and "0 \<le> real i / real points" and "real i / real points \<le> 1"
proof -
  show "0 \<le> real i / real points" by simp
  show le: "real i / real points \<le> 1" using assms by (simp add: points_def)
  have "\<bar>real i / real points\<bar> \<le> 1" using le by simp
  then have "below10 0 (real i / real points)" by (rule below10_unit)
  moreover have "real points \<noteq> 0" by (simp add: points_def)
  ultimately show "js_div (js_nat i) (js_nat points) = Fin (real i / real points)"
    unfolding js_nat_def by (intro js_div_FinI[of 0]) simp_all
qed

lemma point_parts:
  assumes D: "0 < D" "D \<le> 10 ^ 50" and L: "1 / 10 ^ 100 \<le> L" "L \<le> 10 ^ 100"
    and t: "0 \<le> t" "t \<le> 10 ^ 50" and i: "i \<le> points"
  shows "point (Fin D) (Fin L) C (Fin t) i
         = \<lparr>depth = Fin (real i / real points * L * 1000000),
            concentration = js_mul C
              (Fin (1 - (4 / pi) * seriesSum_real D L t (real i / real points * L)))\<rparr>"
    and "below10 4 (1 - (4 / pi) * seriesSum_real D L t (real i / real points * L))"
proof -
  let ?x = "real i / real points * L"
  have "(0::real) < 1 / 10 ^ 100" by simp
  then have Lpos: "0 < L" using L(1) by (rule less_le_trans)
  note idx = sample_index[OF i]
  have x0: "0 \<le> ?x" using idx(2) Lpos by (intro mult_nonneg_nonneg) simp_all
  have "?x \<le> 1 * L" using idx(3) Lpos by (intro mult_right_mono) simp_all
  then have xL: "?x \<le> L" by simp
  have "?x \<le> 10 ^ 100" using xL L(2) by (rule order_trans)
  then have bx: "below10 100 ?x" using x0 by (intro below10_le)
  have e1: "js_mul (Fin (real i / real points)) (Fin L) = Fin ?x"
    by (rule js_mul_FinI[OF bx]) simp
  have "below10 6 1000000" by (simp add: below10_def)
  then have "below10 (100 + 6) (?x * 1000000)" by (rule below10_mult[OF bx])
  then have e2: "js_mul (Fin ?x) (Fin 1000000) = Fin (?x * 1000000)"
    by (rule js_mul_FinI) simp
  note S = seriesSum_refines[OF D L t x0 xL]
  have "\<bar>4 / pi\<bar> \<le> 2" using pi_ge_two by (simp add: field_simps)
  then have bp: "below10 1 (4 / pi)" by (simp add: below10_def)
  then have e3: "js_div (Fin 4) (Fin pi) = Fin (4 / pi)"
    by (rule js_div_FinI) simp_all
  have bS: "below10 2 (seriesSum_real D L t ?x)" using S by (simp add: below10_def)
  have b4S: "below10 (1 + 2) (4 / pi * seriesSum_real D L t ?x)"
    using bp bS by (rule below10_mult)
  then have e4: "js_mul (Fin (4 / pi)) (Fin (seriesSum_real D L t ?x))
                 = Fin (4 / pi * seriesSum_real D L t ?x)"
    by (rule js_mul_FinI) simp
  have "below10 (1 + 2) 1" by (simp add: below10_def)
  then have b1: "below10 (Suc (1 + 2)) (1 - 4 / pi * seriesSum_real D L t ?x)"
    using b4S by (rule below10_diff)
  then show "below10 4 (1 - (4 / pi) * seriesSum_real D L t ?x)"
    by (rule below10_mono) simp
  have e5: "js_sub (Fin 1) (Fin (4 / pi * seriesSum_real D L t ?x))
            = Fin (1 - 4 / pi * seriesSum_real D L t ?x)"
    using b1 by (rule js_sub_FinI) simp
  have e6: "seriesSum (Fin D) (Fin L) (Fin t) (Fin ?x) = Fin (seriesSum_real D L t ?x)"
    using S by simp
  show "point (Fin D) (Fin L) C (Fin t) i
         = \<lparr>depth = Fin (?x * 1000000),
            concentration = js_mul C (Fin (1 - (4 / pi) * seriesSum_real D L t ?x))\<rparr>"
    by (simp only: point_def Let_def idx(1) e1 e2 e3 e4 e5 e6)
qed


lemma point_refines:
  assumes D: "0 < D" "D \<le> 10 ^ 50" and L: "1 / 10 ^ 100 \<le> L" "L \<le> 10 ^ 100"
    and C0: "0 \<le> C0" "C0 \<le> 10 ^ 300"
    and t: "0 \<le> t" "t \<le> 10 ^ 50" and i: "i \<le> points"
  shows "point (Fin D) (Fin L) (Fin C0) (Fin t) i
         = \<lparr>depth = Fin (depth (point_real D L C0 t i)),
            concentration = Fin (concentration (point_real D L C0 t i))\<rparr>"
proof -
  note p = point_parts(1)[OF D L t i, of "Fin C0"] point_parts(2)[OF D L t i]
  have "below10 300 C0" using C0 by (intro below10_le)
  then have "below10 (300 + 4)
      (C0 * (1 - (4 / pi) * seriesSum_real D L t (real i / real points * L)))"
    using p(2) by (rule below10_mult)
  then have "js_mul (Fin C0) (Fin (1 - (4 / pi) * seriesSum_real D L t (real i / real points * L)))
      = Fin (C0 * (1 - (4 / pi) * seriesSum_real D L t (real i / real points * L)))"
    by (rule js_mul_FinI) simp
  moreover have "concentration (point_real D L C0 t i)
      = C0 * (1 - (4 / pi) * seriesSum_real D L t (real i / real points * L))"
    by (simp add: point_real_def Let_def)
  ultimately show ?thesis using p(1) by (simp add: depth_point_real)
qed

lemma calcProfile_refines:
  assumes "0 < D" "D \<le> 10 ^ 50" "1 / 10 ^ 100 \<le> L" "L \<le> 10 ^ 100"
    "0 \<le> C0" "C0 \<le> 10 ^ 300" "0 \<le> t" "t \<le> 10 ^ 50"
  shows "calcProfile (Fin D) (Fin L) (Fin C0) (Fin t)
         = Inr (map (\<lambda>s. \<lparr>depth = Fin (depth s), concentration = Fin (concentration s)\<rparr>)
                  (calcProfile_real D L C0 t))"
  unfolding calcProfile_def calcProfile_real_def
  using point_refines[OF assms] by (simp add: less_Suc_eq_le)

text \<open>
  C5, as the code has it. For \<open>0 < D \<le> 10^50\<close>, \<open>10^-100 \<le> L \<le> 10^100\<close>,
  \<open>0 \<le> C0 \<le> 10^300\<close> and \<open>0 \<le> t \<le> 10^50\<close> no operation overflows or divides by zero:
  the profile has 81 samples and every depth and every concentration is finite.
\<close>

theorem finite_on_moderate_inputs:
  assumes "0 < D" "D \<le> 10 ^ 50" "1 / 10 ^ 100 \<le> L" "L \<le> 10 ^ 100"
    "0 \<le> C0" "C0 \<le> 10 ^ 300" "0 \<le> t" "t \<le> 10 ^ 50"
  shows "\<exists>ps. calcProfile (Fin D) (Fin L) (Fin C0) (Fin t) = Inr ps \<and> length ps = 81
           \<and> (\<forall>s\<in>set ps. is_finite (depth s) \<and> is_finite (concentration s))"
  unfolding calcProfile_refines[OF assms] by (auto simp add: length_calcProfile_real points_def)

theorem finite_on_moderate_inputs_witness:
  "\<exists>ps. calcProfile (Fin (1 / 10 ^ 10)) (Fin (200 / 10 ^ 6)) (Fin 1) (Fin 100) = Inr ps
        \<and> length ps = 81
        \<and> (\<forall>s\<in>set ps. is_finite (depth s) \<and> is_finite (concentration s))"
  by (rule finite_on_moderate_inputs) simp_all

lemma harmonic_odd_20: "12 / 5 \<le> (\<Sum>n<20. 1 / (2 * real n + 1))"
  by (simp add: lessThan_nat_numeral lessThan_Suc)

text \<open>
  The domain constraints alone do not keep the values finite. For \<open>D = L = 1\<close>, \<open>t = 0\<close> and
  \<open>C0 = 1.7e308\<close> the sum of the series at the surface is at least \<open>12 / 5\<close>, the factor
  \<open>1 - (4 / pi) * seriesSum\<close> is at most \<open>- 7 / 5\<close>, and the product with \<open>C0\<close> is beyond the
  largest double: the first concentration is \<open>-Infinity\<close>. So C5 fails.
\<close>

theorem large_C0_overflows:
  "\<not> is_finite (concentration (projr (calcProfile (Fin 1) (Fin 1) (Fin (17 * 10 ^ 307)) (Fin 0)) ! 0))"
proof -
  have p: "point (Fin 1) (Fin 1) (Fin (17 * 10 ^ 307)) (Fin 0) 0
        = \<lparr>depth = Fin (real 0 / real points * 1 * 1000000),
           concentration = js_mul (Fin (17 * 10 ^ 307))
             (Fin (1 - (4 / pi) * seriesSum_real 1 1 0 (real 0 / real points * 1)))\<rparr>"
    by (rule point_parts(1)) simp_all
  have S: "seriesSum_real 1 1 0 (real 0 / real points * 1) = (\<Sum>n<20. 1 / (2 * real n + 1))"
    by (simp add: seriesSum_real_sum summand_real_def nTerms_def)
  have "1 \<le> 4 / pi" using pi_less_4 by (simp add: field_simps)
  then have "1 * (\<Sum>n<20. 1 / (2 * real n + 1)) \<le> (4 / pi) * (\<Sum>n<20. 1 / (2 * real n + 1))"
    using harmonic_odd_20 by (intro mult_right_mono) simp_all
  then have v: "1 - (4 / pi) * (\<Sum>n<20. 1 / (2 * real n + 1)) \<le> - (7 / 5)"
    using harmonic_odd_20 by linarith
  have "(17 * 10 ^ 307) * (1 - (4 / pi) * (\<Sum>n<20. 1 / (2 * real n + 1)))
        \<le> (17 * 10 ^ 307) * (- (7 / 5) :: real)"
    using v by (rule mult_left_mono) simp
  also have "\<dots> \<le> - (2 * 10 ^ 308)" by simp
  also have "\<dots> \<le> - threshold" using threshold_bounds(2) by simp
  finally have "rnd ((17 * 10 ^ 307) * (1 - (4 / pi) * (\<Sum>n<20. 1 / (2 * real n + 1)))) = NInf"
    by (simp only: rnd_def if_True)
  then have "concentration (point (Fin 1) (Fin 1) (Fin (17 * 10 ^ 307)) (Fin 0) 0) = NInf"
    by (simp only: p S js_mul.simps sample.simps)
  then show ?thesis by (simp only: nth_calcProfile le0 is_finite.simps not_False_eq_True)
qed

subsection \<open>No validation, no error\<close>

text \<open>
  With \<open>D = -1\<close> the result is not an error. So C2 fails.
\<close>

theorem no_error_raised: "\<not> isl (calcProfile (Fin (- 1)) (Fin 1) (Fin 1) (Fin 1))"
  by (simp add: calcProfile_def)

text \<open>
  C2, as the code has it. When \<open>D \<le> 0\<close> or \<open>L \<le> 0\<close> or \<open>C0 < 0\<close> or \<open>t < 0\<close> the call raises
  no error: nothing is validated and the array of 81 samples is returned. (The number of
  samples and of terms are the constants 81 and 20 of the source, not arguments.)
\<close>

theorem out_of_domain_returns_profile:
  assumes "js_le D (Fin 0) \<or> js_le thickness (Fin 0) \<or> js_less C0 (Fin 0) \<or> js_less t (Fin 0)"
  shows "\<exists>ps. calcProfile D thickness C0 t = Inr ps \<and> length ps = 81"
  by (simp add: calcProfile_def points_def)

theorem out_of_domain_returns_profile_witness:
  "\<exists>ps. calcProfile (Fin (- 1)) (Fin 0) (Fin (- (1 / 2))) (Fin (- 1)) = Inr ps \<and> length ps = 81"
  by (rule out_of_domain_returns_profile) simp

lemma rnd_0: "rnd 0 = Fin 0"
  by (rule rnd_small) (simp add: below10_def)

lemma summand_zero_thickness:
  assumes "n < nTerms"
  shows "summand D (Fin 0) t (Fin 0) n = NaN"
proof -
  have k: "odd_js n = Fin (2 * real n + 1)" using assms by (rule odd_js_Fin)
  have "(2 * real n + 1) * pi \<le> 39 * 4"
    using assms pi_less_4 by (intro mult_mono) (simp_all add: nTerms_def)
  then have "below10 3 ((2 * real n + 1) * pi)" by (intro below10_le) simp_all
  then have kp: "js_mul (Fin (2 * real n + 1)) (Fin pi) = Fin ((2 * real n + 1) * pi)"
    by (rule js_mul_FinI) simp
  have z: "js_mul (Fin ((2 * real n + 1) * pi)) (Fin 0) = Fin 0" "js_mul (Fin 2) (Fin 0) = Fin 0"
    by (simp_all add: rnd_0)
  have "js_div (Fin 0) (Fin 0) = NaN" by simp
  then show ?thesis
    by (simp only: summand_def Let_def k kp z Math_cos.simps js_mul_NaN)
qed

lemma seriesSum_zero_thickness: "seriesSum D (Fin 0) t (Fin 0) = NaN"
proof -
  have "[0..<nTerms] = 0 # [1..<nTerms]" by (simp add: nTerms_def upt_conv_Cons)
  moreover have "js_add (Fin 0) (summand D (Fin 0) t (Fin 0) 0) = NaN"
    by (simp add: summand_zero_thickness nTerms_def)
  ultimately show ?thesis by (simp add: seriesSum_def foldl_js_add_NaN)
qed

text \<open>
  C10. For all numbers \<open>D\<close>, \<open>thickness\<close>, \<open>C0\<close>, \<open>t\<close>, in the domain or not, infinities and
  NaN included, the computation returns an array of exactly 81 samples and never an error;
  the values need not be finite: with thickness 0 the first concentration is NaN.
\<close>

theorem calcProfile_total:
  "(\<exists>ps. calcProfile D thickness C0 t = Inr ps \<and> length ps = 81)
   \<and> concentration (projr (calcProfile (Fin 1) (Fin 0) (Fin 1) (Fin 1)) ! 0) = NaN"
proof -
  have "js_mul (js_div (js_nat 0) (js_nat points)) (Fin 0) = Fin 0"
    by (simp add: sample_index(1) rnd_0)
  then have "concentration (point (Fin 1) (Fin 0) (Fin 1) (Fin 1) 0) = NaN"
    by (simp add: point_def Let_def seriesSum_zero_thickness js_mul_NaN js_sub_NaN)
  then show ?thesis by (simp add: nth_calcProfile) (simp add: calcProfile_def points_def)
qed

section \<open>The values of the profile, on JavaScript numbers\<close>

lemma js_add_NaN: "js_add v NaN = NaN"
  by (cases v) simp_all

lemma js_mul_NaN_left: "js_mul NaN v = NaN"
  by (cases v) simp_all

lemma nth_refined:
  assumes "0 < D" "D \<le> 10 ^ 50" "1 / 10 ^ 100 \<le> L" "L \<le> 10 ^ 100"
    "0 \<le> C0" "C0 \<le> 10 ^ 300" "0 \<le> t" "t \<le> 10 ^ 50" "i \<le> points"
  shows "concentration (projr (calcProfile (Fin D) (Fin L) (Fin C0) (Fin t)) ! i)
           = Fin (concentration (calcProfile_real D L C0 t ! i))"
    and "depth (projr (calcProfile (Fin D) (Fin L) (Fin C0) (Fin t)) ! i)
           = Fin (depth (calcProfile_real D L C0 t ! i))"
  using assms(9) point_refines[OF assms]
  by (simp_all add: nth_calcProfile nth_calcProfile_real)

subsection \<open>The closed form\<close>

text \<open>
  For a thin slab the squared wavenumber overflows: with \<open>L = 1e-160\<close> the quotient
  \<open>(2n + 1) * pi / (2L)\<close> is at least \<open>1e160\<close> and \<^verbatim>\<open>Math.pow\<close> of it is \<open>Infinity\<close>. At
  \<open>t = 0\<close> the exponent \<open>-D * Infinity * 0\<close> is NaN, and so is every concentration.
\<close>

lemma pow2_overflows:
  assumes "n < nTerms"
  shows "Math_pow2 (js_div (js_mul (odd_js n) (Fin pi)) (js_mul (Fin 2) (Fin (1 / 10 ^ 160)))) = PInf"
proof -
  define k where "k = 2 * real n + 1"
  have k: "1 \<le> k" "k \<le> 39" using assms by (simp_all add: k_def nTerms_def)
  have odd: "odd_js n = Fin k" unfolding k_def using assms by (rule odd_js_Fin)
  have bk: "below10 2 k" using k by (intro below10_le) simp_all
  have bkpi: "below10 (2 + 1) (k * pi)" using bk below10_pi by (rule below10_mult)
  have e1: "js_mul (Fin k) (Fin pi) = Fin (k * pi)" by (rule js_mul_FinI[OF bkpi]) simp
  have "below10 1 (2 * (1 / 10 ^ 160))" by (intro below10_le) simp_all
  then have e2: "js_mul (Fin 2) (Fin (1 / 10 ^ 160)) = Fin (2 * (1 / 10 ^ 160))"
    by (rule js_mul_FinI) simp
  have low: "1 / 10 ^ 160 \<le> \<bar>2 * (1 / 10 ^ 160) :: real\<bar>" by simp
  have bq: "below10 (2 + 1 + 160) (k * pi / (2 * (1 / 10 ^ 160)))"
    using bkpi low by (rule below10_div)
  have nz: "2 * (1 / 10 ^ 160) \<noteq> (0::real)" by simp
  have e3: "js_div (Fin (k * pi)) (Fin (2 * (1 / 10 ^ 160))) = Fin (k * pi / (2 * (1 / 10 ^ 160)))"
    by (rule js_div_FinI[OF bq _ nz]) simp
  have "1 * 2 \<le> k * pi" using k(1) pi_ge_two by (intro mult_mono) simp_all
  then have "10 ^ 160 \<le> k * pi / (2 * (1 / 10 ^ 160))" by (simp add: field_simps)
  then have "(10 ^ 160) ^ 2 \<le> (k * pi / (2 * (1 / 10 ^ 160))) ^ 2"
    by (rule power_mono) simp
  moreover have "threshold \<le> (10 ^ 160) ^ 2"
  proof -
    have "threshold \<le> 10 ^ 1 * 10 ^ 308" using threshold_bounds(2) by simp
    also have "\<dots> \<le> (10::real) ^ 320"
      unfolding power_add[symmetric] by (rule power_increasing) simp_all
    also have "\<dots> = (10 ^ 160) ^ 2" unfolding power_mult[symmetric] by simp
    finally show ?thesis .
  qed
  ultimately have big: "threshold \<le> (k * pi / (2 * (1 / 10 ^ 160))) ^ 2" by (rule order_trans[rotated])
  have "0 < threshold" using threshold_bounds(1) by (rule less_trans[rotated]) simp
  then have "\<not> (k * pi / (2 * (1 / 10 ^ 160))) ^ 2 \<le> - threshold"
    using big by linarith
  then have "rnd ((k * pi / (2 * (1 / 10 ^ 160))) ^ 2) = PInf"
    using big by (simp only: rnd_def if_True if_False)
  then show ?thesis by (simp only: odd e1 e2 e3 Math_pow2.simps)
qed

lemma seriesSum_tiny_thickness: "seriesSum (Fin 1) (Fin (1 / 10 ^ 160)) (Fin 0) x = NaN"
proof -
  have p: "Math_pow2 (js_div (js_mul (odd_js 0) (Fin pi)) (js_mul (Fin 2) (Fin (1 / 10 ^ 160)))) = PInf"
    by (rule pow2_overflows) (simp add: nTerms_def)
  have a: "js_mul (js_neg (Fin 1)) PInf = NInf" "js_mul NInf (Fin 0) = NaN" by simp_all
  have "summand (Fin 1) (Fin (1 / 10 ^ 160)) (Fin 0) x 0 = NaN"
    by (simp only: summand_def Let_def p a Math_exp.simps js_mul_NaN js_mul_NaN_left)
  then have s: "js_add (Fin 0) (summand (Fin 1) (Fin (1 / 10 ^ 160)) (Fin 0) x 0) = NaN"
    by (simp only: js_add_NaN)
  have u: "[0..<nTerms] = 0 # [1..<nTerms]" by (simp add: nTerms_def upt_conv_Cons)
  show ?thesis by (simp only: seriesSum_def u foldl_Cons s foldl_js_add_NaN)
qed

lemma tiny_thickness_NaN:
  "concentration (projr (calcProfile (Fin 1) (Fin (1 / 10 ^ 160)) (Fin 1) (Fin 0)) ! 0) = NaN"
  by (simp only: nth_calcProfile le0 point_def Let_def seriesSum_tiny_thickness js_mul_NaN
      js_sub_NaN sample.select_convs)

text \<open>
  For \<open>D = 1\<close>, \<open>L = 1e-160\<close>, \<open>C0 = 1\<close>, \<open>t = 0\<close>, all in the domain, the first concentration
  is NaN and not the value of the closed form. So C1 fails.
\<close>

theorem closed_form_fails_at_tiny_thickness:
  "concentration (projr (calcProfile (Fin 1) (Fin (1 / 10 ^ 160)) (Fin 1) (Fin 0)) ! 0)
   \<noteq> Fin (closed_form 20 1 (1 / 10 ^ 160) 1 (real 0 / real points * (1 / 10 ^ 160)) 0)"
  by (simp only: tiny_thickness_NaN jsnum.distinct simp_thms)

text \<open>
  C1, as the code has it. For \<open>0 < D \<le> 10^50\<close>, \<open>10^-100 \<le> L \<le> 10^100\<close>,
  \<open>0 \<le> C0 \<le> 10^300\<close> and \<open>0 \<le> t \<le> 10^50\<close>, the concentration of the sample of index \<open>i\<close>
  (\<open>i = 0 .. 80\<close>), computed at the depth \<open>x_i = (i / 80) * L\<close>, is the finite number that the
  closed form of the documentation, truncated after 20 terms, has at \<open>x_i\<close> and \<open>t\<close>.
\<close>

theorem concentration_closed_form:
  assumes "0 < D" "D \<le> 10 ^ 50" "1 / 10 ^ 100 \<le> L" "L \<le> 10 ^ 100"
    "0 \<le> C0" "C0 \<le> 10 ^ 300" "0 \<le> t" "t \<le> 10 ^ 50" "i \<le> points"
  shows "concentration (projr (calcProfile (Fin D) (Fin L) (Fin C0) (Fin t)) ! i)
         = Fin (closed_form 20 D L C0 (real i / real points * L) t)"
  using assms(9)
  by (simp add: nth_refined(1)[OF assms] nth_calcProfile_real concentration_point_real nTerms_def)

text \<open>The default parameters of the component, the sample in the middle, after 100 s.\<close>

theorem concentration_closed_form_witness:
  "concentration (projr (calcProfile (Fin (1 / 10 ^ 10)) (Fin (200 / 10 ^ 6)) (Fin 1) (Fin 100)) ! 40)
   = Fin (closed_form 20 (1 / 10 ^ 10) (200 / 10 ^ 6) 1 (real 40 / real points * (200 / 10 ^ 6)) 100)"
  by (rule concentration_closed_form [of "1 / 10 ^ 10" "200 / 10 ^ 6" 1 100 40])
     (simp_all add: points_def)

subsection \<open>The spacing of the depths\<close>

lemma depth_point:
  assumes L: "1 / 10 ^ 100 \<le> L" "L \<le> 10 ^ 100" and i: "i \<le> points"
  shows "depth (point D (Fin L) C T i) = Fin (real i / real points * L * 1000000)"
proof -
  let ?x = "real i / real points * L"
  have "(0::real) < 1 / 10 ^ 100" by simp
  then have Lpos: "0 < L" using L(1) by (rule less_le_trans)
  note idx = sample_index[OF i]
  have x0: "0 \<le> ?x" using idx(2) Lpos by (intro mult_nonneg_nonneg) simp_all
  have "?x \<le> 1 * L" using idx(3) Lpos by (intro mult_right_mono) simp_all
  then have xL: "?x \<le> L" by simp
  have "?x \<le> 10 ^ 100" using xL L(2) by (rule order_trans)
  then have bx: "below10 100 ?x" using x0 by (intro below10_le)
  have e1: "js_mul (Fin (real i / real points)) (Fin L) = Fin ?x"
    by (rule js_mul_FinI[OF bx]) simp
  have "below10 6 1000000" by (simp add: below10_def)
  then have "below10 (100 + 6) (?x * 1000000)" by (rule below10_mult[OF bx])
  then have e2: "js_mul (Fin ?x) (Fin 1000000) = Fin (?x * 1000000)"
    by (rule js_mul_FinI) simp
  show ?thesis by (simp only: point_def Let_def idx(1) e1 e2 sample.select_convs)
qed

lemma depth_overflows:
  assumes "79 \<le> i" "i \<le> points"
  shows "depth (point D (Fin (10 ^ 303)) C T i) = PInf"
proof -
  let ?x = "real i / real points * 10 ^ 303"
  note idx = sample_index[OF assms(2)]
  have "below10 (0 + 303) ?x"
    by (rule below10_mult[OF below10_unit]) (use idx in \<open>simp_all add: below10_def\<close>)
  then have e1: "js_mul (Fin (real i / real points)) (Fin (10 ^ 303)) = Fin ?x"
    by (rule js_mul_FinI) simp
  have "79 / 80 \<le> real i / real points" using assms by (simp add: points_def)
  then have "79 / 80 * 10 ^ 303 \<le> ?x" by (rule mult_right_mono) simp
  then have "79 / 80 * 10 ^ 303 * 1000000 \<le> ?x * 1000000" by (rule mult_right_mono) simp
  moreover have "threshold \<le> 79 / 80 * 10 ^ 303 * 1000000"
  proof -
    have "(2::real) * 10 ^ 308 \<le> 79 / 80 * (10 ^ 303 * 10 ^ 6)"
      unfolding power_add[symmetric] by simp
    then show ?thesis using threshold_bounds(2) by simp
  qed
  ultimately have big: "threshold \<le> ?x * 1000000" by (rule order_trans[rotated])
  have "0 < threshold" using threshold_bounds(1) by (rule less_trans[rotated]) simp
  then have "\<not> ?x * 1000000 \<le> - threshold" using big by linarith
  then have "rnd (?x * 1000000) = PInf" using big by (simp only: rnd_def if_True if_False)
  then have e2: "js_mul (Fin ?x) (Fin 1000000) = PInf" by (simp only: js_mul.simps)
  show ?thesis
    by (simp only: point_def Let_def idx(1) e1 e2 sample.select_convs)
qed

text \<open>
  The depths are not \<open>(i / (81 - 1)) * L\<close>: the sample carries the depth in microns, so for
  \<open>L = 1\<close> the sample of index 40 has the depth \<open>500000\<close>, not \<open>1 / 2\<close>. Nor are they strictly
  increasing for every \<open>L > 0\<close>: for \<open>L = 1e303\<close> the product \<open>x * 1e6\<close> overflows and the last
  two depths are both \<open>Infinity\<close>. So C4 fails.
\<close>

theorem depth_not_fraction_of_thickness:
  "depth (projr (calcProfile (Fin 1) (Fin 1) (Fin 1) (Fin 1)) ! 40) \<noteq> Fin (real 40 / (81 - 1) * 1)
   \<and> \<not> js_less (depth (projr (calcProfile (Fin 1) (Fin (10 ^ 303)) (Fin 1) (Fin 1)) ! 79))
                (depth (projr (calcProfile (Fin 1) (Fin (10 ^ 303)) (Fin 1) (Fin 1)) ! 80))"
proof -
  have "depth (point (Fin 1) (Fin 1) (Fin 1) (Fin 1) 40) = Fin (real 40 / real points * 1 * 1000000)"
    by (rule depth_point) (simp_all add: points_def)
  then have a: "depth (projr (calcProfile (Fin 1) (Fin 1) (Fin 1) (Fin 1)) ! 40)
                \<noteq> Fin (real 40 / (81 - 1) * 1)"
    by (simp add: nth_calcProfile points_def)
  have "depth (point (Fin 1) (Fin (10 ^ 303)) (Fin 1) (Fin 1) 79) = PInf"
       "depth (point (Fin 1) (Fin (10 ^ 303)) (Fin 1) (Fin 1) 80) = PInf"
    by (rule depth_overflows; simp add: points_def)+
  then have b: "\<not> js_less (depth (projr (calcProfile (Fin 1) (Fin (10 ^ 303)) (Fin 1) (Fin 1)) ! 79))
                (depth (projr (calcProfile (Fin 1) (Fin (10 ^ 303)) (Fin 1) (Fin 1)) ! 80))"
    by (simp add: nth_calcProfile points_def)
  show ?thesis using a b by (rule conjI)
qed

text \<open>
  C4, as the code has it. For \<open>10^-100 \<le> L \<le> 10^100\<close>, whatever \<open>D\<close>, \<open>C0\<close> and \<open>t\<close> are, the
  profile has exactly 81 samples, in index order; the depth of sample \<open>i\<close> is the finite
  number \<open>(i / (81 - 1)) * L * 1000000\<close>, so the depths are equally spaced, and they are
  strictly increasing under the comparison \<^verbatim>\<open><\<close> of JavaScript.
\<close>

theorem depths_equally_spaced_microns:
  assumes "1 / 10 ^ 100 \<le> L" "L \<le> 10 ^ 100"
  shows "\<exists>ps. calcProfile D (Fin L) C0 t = Inr ps \<and> length ps = 81
           \<and> map depth ps = map (\<lambda>i. Fin (real i / real (81 - 1) * L * 1000000)) [0..<81]
           \<and> sorted_wrt js_less (map depth ps)"
proof -
  have "(0::real) < 1 / 10 ^ 100" by simp
  then have Lpos: "0 < L" using assms(1) by (rule less_le_trans)
  have "map depth (map (point D (Fin L) C0 t) [0..<Suc points])
        = map (\<lambda>i. Fin (real i / real points * L * 1000000)) [0..<Suc points]"
  proof (unfold map_map, rule map_cong[OF refl])
    fix i assume "i \<in> set [0..<Suc points]"
    then have "i \<le> points" by auto
    then show "(depth \<circ> point D (Fin L) C0 t) i = Fin (real i / real points * L * 1000000)"
      unfolding comp_def by (rule depth_point[OF assms])
  qed
  then have m: "map depth (map (point D (Fin L) C0 t) [0..<Suc points])
           = map (\<lambda>i. Fin (real i / real (81 - 1) * L * 1000000)) [0..<81]"
    by (simp only: points_def) simp
  have "sorted_wrt js_less (map (\<lambda>i. Fin (real i / real (81 - 1) * L * 1000000)) [0..<81])"
    using Lpos by (intro sorted_wrt_map_upt) (simp add: divide_strict_right_mono)
  then have srt: "sorted_wrt js_less (map depth (map (point D (Fin L) C0 t) [0..<Suc points]))"
    by (simp only: m)
  have len: "length (map (point D (Fin L) C0 t) [0..<Suc points]) = 81"
    by (simp add: points_def)
  show ?thesis
    unfolding calcProfile_def
    by (intro exI[of _ "map (point D (Fin L) C0 t) [0..<Suc points]"] conjI refl len m srt)
qed

theorem depths_equally_spaced_microns_witness:
  "\<exists>ps. calcProfile (Fin (1 / 10 ^ 10)) (Fin (200 / 10 ^ 6)) (Fin 1) (Fin 100) = Inr ps
        \<and> length ps = 81
        \<and> map depth ps = map (\<lambda>i. Fin (real i / real (81 - 1) * (200 / 10 ^ 6) * 1000000)) [0..<81]
        \<and> sorted_wrt js_less (map depth ps)"
  by (rule depths_equally_spaced_microns) simp_all

subsection \<open>Monotonicity in time\<close>

text \<open>
  For \<open>D = L = C0 = 1\<close> the concentration of the middle sample (\<open>i = 40\<close>) at \<open>t = 0\<close> is
  greater than at \<open>t = 3 / 50\<close> (about 0.439 against 0.307). And for \<open>D = 1\<close>, \<open>L = 1e-160\<close>,
  \<open>C0 = 1\<close> the surface concentration is NaN at \<open>t = 0\<close>, which is not \<^verbatim>\<open><=\<close> any number.
  So the monotonicity of C6 fails.
\<close>

theorem midpoint_concentration_decreases:
  "\<not> js_le (concentration (projr (calcProfile (Fin 1) (Fin 1) (Fin 1) (Fin 0)) ! 40))
            (concentration (projr (calcProfile (Fin 1) (Fin 1) (Fin 1) (Fin (3 / 50))) ! 40))
   \<and> \<not> js_le (concentration (projr (calcProfile (Fin 1) (Fin (1 / 10 ^ 160)) (Fin 1) (Fin 0)) ! 0))
              (concentration (projr (calcProfile (Fin 1) (Fin (1 / 10 ^ 160)) (Fin 1) (Fin 1)) ! 0))"
proof -
  have a: "concentration (projr (calcProfile (Fin 1) (Fin 1) (Fin 1) (Fin 0)) ! 40)
           = Fin (concentration (calcProfile_real 1 1 1 0 ! 40))"
    by (rule nth_refined(1)) (simp_all add: points_def)
  have b: "concentration (projr (calcProfile (Fin 1) (Fin 1) (Fin 1) (Fin (3 / 50))) ! 40)
           = Fin (concentration (calcProfile_real 1 1 1 (3 / 50) ! 40))"
    by (rule nth_refined(1)) (simp_all add: points_def)
  have "\<not> js_le (concentration (projr (calcProfile (Fin 1) (Fin 1) (Fin 1) (Fin 0)) ! 40))
            (concentration (projr (calcProfile (Fin 1) (Fin 1) (Fin 1) (Fin (3 / 50))) ! 40))"
    using midpoint_decreases_real by (simp only: a b js_le.simps simp_thms)
  moreover have "\<not> js_le (concentration (projr (calcProfile (Fin 1) (Fin (1 / 10 ^ 160)) (Fin 1) (Fin 0)) ! 0))
              (concentration (projr (calcProfile (Fin 1) (Fin (1 / 10 ^ 160)) (Fin 1) (Fin 1)) ! 0))"
    by (simp only: tiny_thickness_NaN js_le.simps simp_thms)
  ultimately show ?thesis by (rule conjI)
qed

text \<open>
  C6, as the code has it. For \<open>0 < D \<le> 10^50\<close>, \<open>10^-100 \<le> L \<le> 10^100\<close>,
  \<open>0 \<le> C0 \<le> 10^300\<close> and \<open>0 \<le> t1 \<le> t2 \<le> 10^50\<close>, the concentration at the surface
  (\<open>x = 0\<close>, the first sample) at \<open>t1\<close> is \<^verbatim>\<open><=\<close> the one at \<open>t2\<close>.
\<close>

theorem surface_concentration_monotone:
  assumes "0 < D" "D \<le> 10 ^ 50" "1 / 10 ^ 100 \<le> L" "L \<le> 10 ^ 100"
    "0 \<le> C0" "C0 \<le> 10 ^ 300" "0 \<le> t1" "t1 \<le> t2" "t2 \<le> 10 ^ 50"
  shows "js_le (concentration (projr (calcProfile (Fin D) (Fin L) (Fin C0) (Fin t1)) ! 0))
               (concentration (projr (calcProfile (Fin D) (Fin L) (Fin C0) (Fin t2)) ! 0))"
proof -
  have t1: "t1 \<le> 10 ^ 50" using assms(8,9) by (rule order_trans)
  have t2: "0 \<le> t2" using assms(7,8) by (rule order_trans)
  have a: "concentration (projr (calcProfile (Fin D) (Fin L) (Fin C0) (Fin t1)) ! 0)
           = Fin (concentration (calcProfile_real D L C0 t1 ! 0))"
    by (rule nth_refined(1)[OF assms(1-7) t1]) simp
  have b: "concentration (projr (calcProfile (Fin D) (Fin L) (Fin C0) (Fin t2)) ! 0)
           = Fin (concentration (calcProfile_real D L C0 t2 ! 0))"
    by (rule nth_refined(1)[OF assms(1-6) t2 assms(9)]) simp
  show ?thesis
    using surface_monotone_real[OF assms(1,5,8), of L] by (simp only: a b js_le.simps)
qed

text \<open>The default parameters, from 100 s to 1000 s.\<close>

theorem surface_concentration_monotone_witness:
  "js_le (concentration (projr (calcProfile (Fin (1 / 10 ^ 10)) (Fin (200 / 10 ^ 6)) (Fin 1) (Fin 100)) ! 0))
         (concentration (projr (calcProfile (Fin (1 / 10 ^ 10)) (Fin (200 / 10 ^ 6)) (Fin 1) (Fin 1000)) ! 0))"
  by (rule surface_concentration_monotone) simp_all

subsection \<open>Rescaling\<close>

text \<open>
  \<open>4D * t\<close> is not \<open>D * (t / 4)\<close>: for \<open>D = L = C0 = t = 1\<close> the surface samples of the profiles
  for \<open>(4D, t)\<close> and \<open>(D, t / 4)\<close> differ. So the identity of C8 fails.
\<close>

theorem rescaling_4D_quarter_t_differs:
  "concentration (projr (calcProfile (Fin (4 * 1)) (Fin 1) (Fin 1) (Fin 1)) ! 0)
   \<noteq> concentration (projr (calcProfile (Fin 1) (Fin 1) (Fin 1) (Fin (1 / 4))) ! 0)"
proof -
  have a: "concentration (projr (calcProfile (Fin (4 * 1)) (Fin 1) (Fin 1) (Fin 1)) ! 0)
           = Fin (concentration (calcProfile_real (4 * 1) 1 1 1 ! 0))"
    by (rule nth_refined(1)) simp_all
  have b: "concentration (projr (calcProfile (Fin 1) (Fin 1) (Fin 1) (Fin (1 / 4))) ! 0)
           = Fin (concentration (calcProfile_real 1 1 1 (1 / 4) ! 0))"
    by (rule nth_refined(1)) simp_all
  show ?thesis using rescaling_differs_real by (simp only: a b jsnum.inject simp_thms)
qed

text \<open>
  C8, as the code has it. For \<open>0 < D\<close>, \<open>4D \<le> 10^50\<close>, \<open>10^-100 \<le> L \<le> 10^100\<close>,
  \<open>0 \<le> C0 \<le> 10^300\<close>, \<open>0 \<le> t\<close> and \<open>4t \<le> 10^50\<close>, the profile for the diffusivity \<open>4D\<close> at
  time \<open>t\<close> is the profile for \<open>D\<close> at time \<open>4t\<close>, sample by sample.
\<close>

theorem rescaling_4D_is_4t:
  assumes "0 < D" "4 * D \<le> 10 ^ 50" "1 / 10 ^ 100 \<le> L" "L \<le> 10 ^ 100"
    "0 \<le> C0" "C0 \<le> 10 ^ 300" "0 \<le> t" "4 * t \<le> 10 ^ 50"
  shows "calcProfile (Fin (4 * D)) (Fin L) (Fin C0) (Fin t)
         = calcProfile (Fin D) (Fin L) (Fin C0) (Fin (4 * t))"
proof -
  have D: "0 < 4 * D" "D \<le> 10 ^ 50" using assms(1,2) by linarith+
  have t: "0 \<le> 4 * t" "t \<le> 10 ^ 50" using assms(7,8) by linarith+
  show ?thesis
    by (simp only: calcProfile_refines[OF D(1) assms(2-7) t(2)]
        calcProfile_refines[OF assms(1) D(2) assms(3-6) t(1) assms(8)] calcProfile_real_rescale)
qed

theorem rescaling_4D_is_4t_witness:
  "calcProfile (Fin (4 * (1 / 10 ^ 10))) (Fin (200 / 10 ^ 6)) (Fin 1) (Fin 100)
   = calcProfile (Fin (1 / 10 ^ 10)) (Fin (200 / 10 ^ 6)) (Fin 1) (Fin (4 * 100))"
  by (rule rescaling_4D_is_4t) simp_all

subsection \<open>Steady state\<close>

text \<open>
  For the steady state the time is not bounded: when \<open>D * k^2 * t\<close> overflows, the exponent
  is \<open>-Infinity\<close> and the decay factor is 0. Either way the summand is finite and at most
  \<open>exp (- D * (pi / (2L))^2 * t)\<close> in absolute value.
\<close>

lemma summand_shape:
  assumes D: "0 < D" "D \<le> 10 ^ 50" and L: "1 / 10 ^ 100 \<le> L" "L \<le> 10 ^ 100"
    and x: "0 \<le> x" "x \<le> L" and n: "n < nTerms"
  shows "summand (Fin D) (Fin L) T (Fin x) n
         = js_mul (js_mul (Fin (1 / (2 * real n + 1)))
                     (Math_exp (js_mul (Fin (- D * ((2 * real n + 1) * pi / (2 * L)) ^ 2)) T)))
             (Fin (cos ((2 * real n + 1) * pi * x / (2 * L))))"
proof -
  define k where "k = 2 * real n + 1"
  have k: "1 \<le> k" "k \<le> 39" using n by (simp_all add: k_def nTerms_def)
  have odd: "odd_js n = Fin k" unfolding k_def using n by (rule odd_js_Fin)
  have "(0::real) < 1 / 10 ^ 100" by simp
  then have Lpos: "0 < L" using L(1) by (rule less_le_trans)
  have bk: "below10 2 k" using k by (intro below10_le) simp_all
  have bL: "below10 100 L" using Lpos L(2) by (intro below10_le) simp_all
  have bx: "below10 100 x" using x L(2) by (intro below10_le) simp_all
  have bD: "below10 50 D" using D by (intro below10_le) simp_all
  have low: "1 / 10 ^ 100 \<le> \<bar>2 * L\<bar>" using L(1) Lpos by simp
  have L2: "2 * L \<noteq> 0" using Lpos by simp
  have bkpi: "below10 (2 + 1) (k * pi)" using bk below10_pi by (rule below10_mult)
  have b2L: "below10 (1 + 100) (2 * L)"
    by (rule below10_mult[OF _ bL]) (simp add: below10_def)
  have bq: "below10 (2 + 1 + 100) (k * pi / (2 * L))" using bkpi low by (rule below10_div)
  have bq2: "below10 (2 + 1 + 100 + (2 + 1 + 100)) ((k * pi / (2 * L)) ^ 2)"
    using bq by (rule below10_pow2)
  have bDq: "below10 (50 + (2 + 1 + 100 + (2 + 1 + 100))) (- D * (k * pi / (2 * L)) ^ 2)"
    using below10_neg[OF bD] bq2 by (rule below10_mult)
  have bkpix: "below10 (2 + 1 + 100) (k * pi * x)" using bkpi bx by (rule below10_mult)
  have barg: "below10 (2 + 1 + 100 + 100) (k * pi * x / (2 * L))"
    using bkpix low by (rule below10_div)
  have e1: "js_mul (Fin k) (Fin pi) = Fin (k * pi)" by (rule js_mul_FinI[OF bkpi]) simp
  have e2: "js_mul (Fin 2) (Fin L) = Fin (2 * L)" by (rule js_mul_FinI[OF b2L]) simp
  have e3: "js_div (Fin (k * pi)) (Fin (2 * L)) = Fin (k * pi / (2 * L))"
    by (rule js_div_FinI[OF bq _ L2]) simp
  have e4: "Math_pow2 (Fin (k * pi / (2 * L))) = Fin ((k * pi / (2 * L)) ^ 2)"
    by (rule Math_pow2_Fin, rule below10_mono[OF bq2]) simp
  have e5: "js_mul (Fin (- D)) (Fin ((k * pi / (2 * L)) ^ 2)) = Fin (- D * (k * pi / (2 * L)) ^ 2)"
    by (rule js_mul_FinI[OF bDq]) simp
  have k0: "k \<noteq> 0" using k(1) by simp
  have "\<bar>1 / k\<bar> \<le> 1" using k(1) by simp
  then have "below10 0 (1 / k)" by (rule below10_unit)
  then have e8: "js_div (Fin 1) (Fin k) = Fin (1 / k)" by (rule js_div_FinI) (simp_all add: k0)
  have e10: "js_mul (Fin (k * pi)) (Fin x) = Fin (k * pi * x)" by (rule js_mul_FinI[OF bkpix]) simp
  have e11: "js_div (Fin (k * pi * x)) (Fin (2 * L)) = Fin (k * pi * x / (2 * L))"
    by (rule js_div_FinI[OF barg _ L2]) simp
  have "summand (Fin D) (Fin L) T (Fin x) n
         = js_mul (js_mul (Fin (1 / k)) (Math_exp (js_mul (Fin (- D * (k * pi / (2 * L)) ^ 2)) T)))
             (Fin (cos (k * pi * x / (2 * L))))"
    by (simp only: summand_def Let_def odd js_neg.simps Math_cos.simps e1 e2 e3 e4 e5 e8 e10 e11)
  then show ?thesis by (simp only: k_def)
qed

lemma summand_decays:
  assumes D: "0 < D" "D \<le> 10 ^ 50" and L: "1 / 10 ^ 100 \<le> L" "L \<le> 10 ^ 100"
    and t: "0 \<le> t" and x: "0 \<le> x" "x \<le> L" and n: "n < nTerms"
  shows "\<exists>s. summand (Fin D) (Fin L) (Fin t) (Fin x) n = Fin s
             \<and> \<bar>s\<bar> \<le> exp (- (D * (pi / (2 * L)) ^ 2 * t))"
proof -
  define k where "k = 2 * real n + 1"
  define r where "r = - D * (k * pi / (2 * L)) ^ 2 * t"
  define c where "c = cos (k * pi * x / (2 * L))"
  have k: "1 \<le> k" using n by (simp add: k_def)
  have "(0::real) < 1 / 10 ^ 100" by simp
  then have Lpos: "0 < L" using L(1) by (rule less_le_trans)
  have shape: "summand (Fin D) (Fin L) (Fin t) (Fin x) n
      = js_mul (js_mul (Fin (1 / k)) (Math_exp (rnd r))) (Fin c)"
    unfolding k_def r_def c_def by (simp only: summand_shape[OF D L x n] js_mul.simps)
  have r0: "r \<le> 0" unfolding r_def using D(1) t by (simp add: mult_nonneg_nonneg)
  have "1 * (pi / (2 * L)) \<le> k * (pi / (2 * L))" using k Lpos by (intro mult_right_mono) simp_all
  then have "pi / (2 * L) \<le> k * pi / (2 * L)" by simp
  then have "(pi / (2 * L)) ^ 2 \<le> (k * pi / (2 * L)) ^ 2" using Lpos by (intro power_mono) simp_all
  then have "D * (pi / (2 * L)) ^ 2 \<le> D * (k * pi / (2 * L)) ^ 2"
    using D(1) by (intro mult_left_mono) simp_all
  then have "D * (pi / (2 * L)) ^ 2 * t \<le> D * (k * pi / (2 * L)) ^ 2 * t"
    using t by (rule mult_right_mono)
  then have rl: "r \<le> - (D * (pi / (2 * L)) ^ 2 * t)" by (simp add: r_def)
  have pos: "0 < threshold" using threshold_bounds(1) by (rule less_trans[rotated]) simp
  show ?thesis
  proof (cases "r \<le> - threshold")
    case True
    then have "rnd r = NInf" by (simp only: rnd_def if_True)
    then have "summand (Fin D) (Fin L) (Fin t) (Fin x) n = Fin 0"
      by (simp add: shape rnd_0)
    moreover have "\<bar>0::real\<bar> \<le> exp (- (D * (pi / (2 * L)) ^ 2 * t))" by simp
    ultimately show ?thesis by blast
  next
    case False
    moreover have "\<not> threshold \<le> r" using r0 pos by linarith
    ultimately have "rnd r = Fin r" by (simp only: rnd_def if_False)
    then have e: "Math_exp (rnd r) = Fin (exp r)" using Math_exp_Fin[OF r0] by simp
    have c1: "\<bar>c\<bar> \<le> 1" by (simp add: c_def)
    have "exp r \<le> 1" using r0 by simp
    have "\<bar>1 / k\<bar> \<le> 1" using k by simp
    then have "\<bar>1 / k\<bar> * \<bar>exp r\<bar> \<le> 1 * \<bar>exp r\<bar>" by (rule mult_right_mono) simp
    then have a: "\<bar>1 / k * exp r\<bar> \<le> exp r" by (simp add: abs_mult)
    then have a1: "\<bar>1 / k * exp r\<bar> \<le> 1" using \<open>exp r \<le> 1\<close> by linarith
    have e9: "js_mul (Fin (1 / k)) (Fin (exp r)) = Fin (1 / k * exp r)"
      by (rule js_mul_FinI[OF below10_unit[OF a1]]) simp
    have "\<bar>1 / k * exp r\<bar> * \<bar>c\<bar> \<le> exp r * 1" using a c1 by (intro mult_mono) simp_all
    then have b: "\<bar>1 / k * exp r * c\<bar> \<le> exp r" by (simp add: abs_mult)
    then have b1: "\<bar>1 / k * exp r * c\<bar> \<le> 1" using \<open>exp r \<le> 1\<close> by linarith
    have e12: "js_mul (Fin (1 / k * exp r)) (Fin c) = Fin (1 / k * exp r * c)"
      by (rule js_mul_FinI[OF below10_unit[OF b1]]) simp
    have "summand (Fin D) (Fin L) (Fin t) (Fin x) n = Fin (1 / k * exp r * c)"
      by (simp only: shape e e9 e12)
    moreover have "exp r \<le> exp (- (D * (pi / (2 * L)) ^ 2 * t))" using rl by simp
    then have "\<bar>1 / k * exp r * c\<bar> \<le> exp (- (D * (pi / (2 * L)) ^ 2 * t))"
      using b by (rule order_trans[rotated])
    ultimately show ?thesis by blast
  qed
qed

lemma partial_sum_decays:
  assumes D: "0 < D" "D \<le> 10 ^ 50" and L: "1 / 10 ^ 100 \<le> L" "L \<le> 10 ^ 100"
    and t: "0 \<le> t" and x: "0 \<le> x" "x \<le> L"
  shows "N \<le> nTerms \<Longrightarrow>
         \<exists>S. foldl (\<lambda>s n. js_add s (summand (Fin D) (Fin L) (Fin t) (Fin x) n)) (Fin 0) [0..<N] = Fin S
            \<and> \<bar>S\<bar> \<le> real N * exp (- (D * (pi / (2 * L)) ^ 2 * t))"
proof (induction N)
  case 0
  show ?case by simp
next
  case (Suc N)
  define E where "E = exp (- (D * (pi / (2 * L)) ^ 2 * t))"
  have "0 \<le> D * (pi / (2 * L)) ^ 2 * t" using D(1) t by simp
  then have E: "0 \<le> E" "E \<le> 1" by (simp_all add: E_def)
  from Suc.prems have n: "N < nTerms" and N: "N \<le> nTerms" by simp_all
  obtain s where s: "summand (Fin D) (Fin L) (Fin t) (Fin x) N = Fin s" "\<bar>s\<bar> \<le> E"
    using summand_decays[OF D L t x n] unfolding E_def by blast
  obtain S where S: "foldl (\<lambda>s n. js_add s (summand (Fin D) (Fin L) (Fin t) (Fin x) n)) (Fin 0) [0..<N] = Fin S"
    "\<bar>S\<bar> \<le> real N * E"
    using Suc.IH[OF N] unfolding E_def by blast
  have "real (Suc N) * E = real N * E + E" by (simp add: algebra_simps)
  then have b: "\<bar>S + s\<bar> \<le> real (Suc N) * E" using s(2) S(2) by linarith
  have "real (Suc N) * E \<le> real (Suc N) * 1" using E by (intro mult_left_mono) simp_all
  also have "\<dots> \<le> 10 ^ 2" using n by (simp add: nTerms_def)
  finally have "below10 2 (S + s)" using b unfolding below10_def by linarith
  then have "below10 308 (S + s)" by (rule below10_mono) simp
  then have "js_add (Fin S) (Fin s) = Fin (S + s)" by (rule js_add_Fin)
  then have "foldl (\<lambda>s n. js_add s (summand (Fin D) (Fin L) (Fin t) (Fin x) n)) (Fin 0) [0..<Suc N]
             = Fin (S + s)"
    by (simp add: S(1) s(1))
  then show ?case using b unfolding E_def by blast
qed


lemma seriesSum_decays:
  assumes D: "0 < D" "D \<le> 10 ^ 50" and L: "1 / 10 ^ 100 \<le> L" "L \<le> 10 ^ 100"
    and t: "0 \<le> t" and x: "0 \<le> x" "x \<le> L"
  shows "\<exists>S. seriesSum (Fin D) (Fin L) (Fin t) (Fin x) = Fin S
            \<and> \<bar>S\<bar> \<le> 20 * exp (- (D * (pi / (2 * L)) ^ 2 * t))"
  using partial_sum_decays[OF assms, of nTerms] unfolding seriesSum_def
  by (simp add: nTerms_def)

lemma concentration_rate:
  assumes D: "0 < D" "D \<le> 10 ^ 50" and L: "1 / 10 ^ 100 \<le> L" "L \<le> 10 ^ 100"
    and C0: "0 \<le> C0" "C0 \<le> 10 ^ 300" and t: "0 \<le> t" and i: "i \<le> points"
  shows "\<exists>c. concentration (projr (calcProfile (Fin D) (Fin L) (Fin C0) (Fin t)) ! i) = Fin c
            \<and> \<bar>c - C0\<bar> \<le> 40 * C0 * exp (- (D * (pi / (2 * L)) ^ 2 * t))"
proof -
  let ?x = "real i / real points * L"
  define E where "E = exp (- (D * (pi / (2 * L)) ^ 2 * t))"
  have "0 \<le> D * (pi / (2 * L)) ^ 2 * t" using D(1) t by simp
  then have E: "0 \<le> E" "E \<le> 1" by (simp_all add: E_def)
  have "(0::real) < 1 / 10 ^ 100" by simp
  then have Lpos: "0 < L" using L(1) by (rule less_le_trans)
  note idx = sample_index[OF i]
  have x0: "0 \<le> ?x" using idx(2) Lpos by (intro mult_nonneg_nonneg) simp_all
  have "?x \<le> 1 * L" using idx(3) Lpos by (intro mult_right_mono) simp_all
  then have xL: "?x \<le> L" by simp
  have "?x \<le> 10 ^ 100" using xL L(2) by (rule order_trans)
  then have bx: "below10 100 ?x" using x0 by (intro below10_le)
  have e1: "js_mul (Fin (real i / real points)) (Fin L) = Fin ?x"
    by (rule js_mul_FinI[OF bx]) simp
  obtain S where S: "seriesSum (Fin D) (Fin L) (Fin t) (Fin ?x) = Fin S" "\<bar>S\<bar> \<le> 20 * E"
    using seriesSum_decays[OF D L t x0 xL] unfolding E_def by blast
  have S20: "\<bar>S\<bar> \<le> 10 ^ 2" using S(2) E by simp
  have p2: "\<bar>4 / pi\<bar> \<le> 2" using pi_ge_two by (simp add: field_simps)
  then have bp: "below10 1 (4 / pi)" by (simp add: below10_def)
  then have e3: "js_div (Fin 4) (Fin pi) = Fin (4 / pi)" by (rule js_div_FinI) simp_all
  have bS: "below10 2 S" using S20 by (simp only: below10_def)
  have b4S: "below10 (1 + 2) (4 / pi * S)" using bp bS by (rule below10_mult)
  then have e4: "js_mul (Fin (4 / pi)) (Fin S) = Fin (4 / pi * S)" by (rule js_mul_FinI) simp
  have "below10 (1 + 2) 1" by (simp add: below10_def)
  then have b1: "below10 (Suc (1 + 2)) (1 - 4 / pi * S)" using b4S by (rule below10_diff)
  then have e5: "js_sub (Fin 1) (Fin (4 / pi * S)) = Fin (1 - 4 / pi * S)"
    by (rule js_sub_FinI) simp
  have "below10 300 C0" using C0 by (intro below10_le)
  then have "below10 (300 + Suc (1 + 2)) (C0 * (1 - 4 / pi * S))" using b1 by (rule below10_mult)
  then have e6: "js_mul (Fin C0) (Fin (1 - 4 / pi * S)) = Fin (C0 * (1 - 4 / pi * S))"
    by (rule js_mul_FinI) simp
  have c: "concentration (projr (calcProfile (Fin D) (Fin L) (Fin C0) (Fin t)) ! i)
           = Fin (C0 * (1 - 4 / pi * S))"
    using i by (simp only: nth_calcProfile point_def Let_def idx(1) e1 S(1) e3 e4 e5 e6
        sample.select_convs)
  have "\<bar>4 / pi\<bar> * \<bar>S\<bar> \<le> 2 * (20 * E)" using p2 S(2) by (intro mult_mono) simp_all
  then have "\<bar>4 / pi * S\<bar> \<le> 40 * E" by (simp add: abs_mult)
  then have "C0 * \<bar>4 / pi * S\<bar> \<le> C0 * (40 * E)" using C0(1) by (rule mult_left_mono)
  moreover have "C0 * (1 - 4 / pi * S) - C0 = - (C0 * (4 / pi * S))" by (simp add: algebra_simps)
  then have "\<bar>C0 * (1 - 4 / pi * S) - C0\<bar> = C0 * \<bar>4 / pi * S\<bar>"
    using C0(1) by (simp add: abs_mult)
  ultimately have "\<bar>C0 * (1 - 4 / pi * S) - C0\<bar> \<le> 40 * C0 * E" by simp
  then show ?thesis using c unfolding E_def by blast
qed

text \<open>
  For a thick slab the cosine argument overflows: with \<open>L = 1e307\<close> the product
  \<open>39 * pi * x\<close> at \<open>x = L\<close> is \<open>Infinity\<close>, its cosine is NaN, and the last concentration is NaN
  at every time.
\<close>

lemma last_sample_NaN:
  "concentration (projr (calcProfile D (Fin (10 ^ 307)) C0 t) ! points) = NaN"
proof -
  let ?L = "10 ^ 307 :: real"
  let ?x = "real points / real points * ?L"
  note idx = sample_index[OF order_refl]
  have x: "?x = ?L" by (simp add: points_def)
  have "below10 (0 + 307) ?x"
    by (rule below10_mult[OF below10_unit]) (use idx in \<open>simp_all add: below10_def\<close>)
  then have e1: "js_mul (Fin (real points / real points)) (Fin ?L) = Fin ?x"
    by (rule js_mul_FinI) simp
  have n: "19 < nTerms" by (simp add: nTerms_def)
  have odd: "odd_js 19 = Fin (2 * real 19 + 1)" using n by (rule odd_js_Fin)
  have "below10 2 (2 * real 19 + 1)" by (intro below10_le) simp_all
  then have bkpi: "below10 (2 + 1) ((2 * real 19 + 1) * pi)" using below10_pi by (rule below10_mult)
  have e2: "js_mul (Fin (2 * real 19 + 1)) (Fin pi) = Fin ((2 * real 19 + 1) * pi)"
    by (rule js_mul_FinI[OF bkpi]) simp
  have "(3::real) \<le> pi" by (rule pi_ge_3)
  then have "39 * 3 \<le> (2 * real 19 + 1) * pi" by simp
  then have "39 * 3 * ?L \<le> (2 * real 19 + 1) * pi * ?x"
    unfolding x by (rule mult_right_mono) simp
  moreover have "threshold \<le> 39 * 3 * ?L"
  proof -
    have "(2::real) * 10 ^ 308 \<le> 39 * 3 * 10 ^ 307" by simp
    then show ?thesis using threshold_bounds(2) by linarith
  qed
  ultimately have big: "threshold \<le> (2 * real 19 + 1) * pi * ?x" by (rule order_trans[rotated])
  have pos: "0 < threshold" using threshold_bounds(1) by (rule less_trans[rotated]) simp
  then have "\<not> (2 * real 19 + 1) * pi * ?x \<le> - threshold" using big by linarith
  then have "rnd ((2 * real 19 + 1) * pi * ?x) = PInf" using big by (simp only: rnd_def if_True if_False)
  then have e3: "js_mul (Fin ((2 * real 19 + 1) * pi)) (Fin ?x) = PInf" by (simp only: js_mul.simps)
  have "below10 (1 + 307) (2 * ?L)" by (rule below10_mult) (simp_all add: below10_def)
  then have e4: "js_mul (Fin 2) (Fin ?L) = Fin (2 * ?L)" by (rule js_mul_FinI) simp
  have e5: "js_div PInf (Fin (2 * ?L)) = PInf" by simp
  have s: "summand D (Fin ?L) t (Fin ?x) 19 = NaN"
    by (simp only: summand_def Let_def odd e2 e3 e4 e5 Math_cos.simps js_mul_NaN)
  have "[0..<Suc 19] = [0..<19] @ [19]" by (rule upt_Suc_append) simp
  moreover have "nTerms = Suc 19" by (simp add: nTerms_def)
  ultimately have u: "[0..<nTerms] = [0..<19] @ [19]" by (rule ssubst[rotated])
  have "seriesSum D (Fin ?L) t (Fin ?x) = NaN"
    by (simp only: seriesSum_def u foldl_append foldl_Cons foldl_Nil s js_add_NaN)
  then show ?thesis
    by (simp only: nth_calcProfile order_refl point_def Let_def idx(1) e1 js_mul_NaN js_sub_NaN
        sample.select_convs)
qed

text \<open>
  For \<open>D = 1\<close>, \<open>L = 1e307\<close>, \<open>C0 = 1\<close>, all in the domain, there is no time from which on the
  last concentration is a number within 1 of \<open>C0\<close>. So C7 fails.
\<close>

theorem no_steady_state_at_huge_thickness:
  "\<not> (\<exists>T. \<forall>t\<ge>T. \<exists>c. concentration (projr (calcProfile (Fin 1) (Fin (10 ^ 307)) (Fin 1) (Fin t)) ! 80) = Fin c
                       \<and> \<bar>c - 1\<bar> < 1)"
proof
  assume "\<exists>T. \<forall>t\<ge>T. \<exists>c. concentration (projr (calcProfile (Fin 1) (Fin (10 ^ 307)) (Fin 1) (Fin t)) ! 80) = Fin c
                       \<and> \<bar>c - 1\<bar> < 1"
  then obtain T c where "concentration (projr (calcProfile (Fin 1) (Fin (10 ^ 307)) (Fin 1) (Fin T)) ! 80) = Fin c"
    by blast
  moreover have "concentration (projr (calcProfile (Fin 1) (Fin (10 ^ 307)) (Fin 1) (Fin T)) ! 80) = NaN"
    using last_sample_NaN[of "Fin 1" "Fin 1" "Fin T"] by (simp only: points_def)
  ultimately show False by simp
qed

text \<open>
  C7, as the code has it. For \<open>10^-50 \<le> D \<le> 10^50\<close>, \<open>10^-100 \<le> L \<le> 10^100\<close> and
  \<open>0 \<le> C0 \<le> 10^300\<close>, at every time \<open>t \<ge> 0\<close> each of the 81 concentrations is a finite number
  within \<open>40 * C0 * exp (- D * (pi / (2L))^2 * t)\<close> of \<open>C0\<close>; so for every \<open>eps > 0\<close>, from the
  time \<open>T = 40 * C0 / (eps * D * (pi / (2L))^2)\<close> on, all of them are within \<open>eps\<close> of \<open>C0\<close>:
  the convergence is uniform in the depth. (The lower bound on \<open>D\<close> keeps \<open>D * k^2\<close> away from
  the underflow that the model does not have.)
\<close>

theorem steady_state_rate:
  assumes "1 / 10 ^ 50 \<le> D" "D \<le> 10 ^ 50" "1 / 10 ^ 100 \<le> L" "L \<le> 10 ^ 100"
    "0 \<le> C0" "C0 \<le> 10 ^ 300" "0 < eps"
  shows "(\<forall>t\<ge>0. \<forall>i\<le>points. \<exists>c.
            concentration (projr (calcProfile (Fin D) (Fin L) (Fin C0) (Fin t)) ! i) = Fin c
            \<and> \<bar>c - C0\<bar> \<le> 40 * C0 * exp (- (D * (pi / (2 * L)) ^ 2 * t)))
       \<and> (\<forall>t\<ge>40 * C0 / (eps * (D * (pi / (2 * L)) ^ 2)). \<forall>i\<le>points. \<exists>c.
            concentration (projr (calcProfile (Fin D) (Fin L) (Fin C0) (Fin t)) ! i) = Fin c
            \<and> \<bar>c - C0\<bar> < eps)"
proof -
  have "(0::real) < 1 / 10 ^ 50" by simp
  then have D: "0 < D" using assms(1) by (rule less_le_trans)
  have "(0::real) < 1 / 10 ^ 100" by simp
  then have Lpos: "0 < L" using assms(3) by (rule less_le_trans)
  define lam where "lam = D * (pi / (2 * L)) ^ 2"
  have lam: "0 < lam" unfolding lam_def using D Lpos by simp
  note rate = concentration_rate[OF D assms(2-6), folded lam_def]
  have late: "\<exists>c. concentration (projr (calcProfile (Fin D) (Fin L) (Fin C0) (Fin t)) ! i) = Fin c
            \<and> \<bar>c - C0\<bar> < eps" if t: "40 * C0 / (eps * lam) \<le> t" and i: "i \<le> points" for t i
  proof -
    have "0 \<le> 40 * C0 / (eps * lam)" using assms(5,7) lam by simp
    then have t0: "0 \<le> t" using t by (rule order_trans)
    obtain c where c: "concentration (projr (calcProfile (Fin D) (Fin L) (Fin C0) (Fin t)) ! i) = Fin c"
      "\<bar>c - C0\<bar> \<le> 40 * C0 * exp (- (lam * t))"
      using rate[OF t0 i] by blast
    have y: "40 * C0 \<le> eps * (lam * t)" using t assms(7) lam by (simp add: field_simps)
    have y0: "0 \<le> lam * t" using lam t0 by simp
    have "1 + lam * t \<le> exp (lam * t)" by (rule exp_ge_add_one_self)
    then have "exp (- (lam * t)) \<le> 1 / (1 + lam * t)"
      using y0 by (simp add: exp_minus field_simps)
    then have "40 * C0 * exp (- (lam * t)) \<le> 40 * C0 * (1 / (1 + lam * t))"
      using assms(5) by (intro mult_left_mono) simp_all
    also have "\<dots> < eps"
    proof -
      have "40 * C0 < eps * (1 + lam * t)" using y assms(7) by (simp add: algebra_simps)
      then show ?thesis using y0 by (simp add: field_simps)
    qed
    finally have "\<bar>c - C0\<bar> < eps" using c(2) by linarith
    then show ?thesis using c(1) by blast
  qed
  show ?thesis using rate late unfolding lam_def by blast
qed

text \<open>The default parameters, the sample in the middle, to one part in a million at \<open>t = 1e12\<close>.\<close>

theorem steady_state_rate_witness:
  "\<exists>c. concentration (projr (calcProfile (Fin (1 / 10 ^ 10)) (Fin (200 / 10 ^ 6)) (Fin 1) (Fin (10 ^ 12))) ! 40) = Fin c
      \<and> \<bar>c - 1\<bar> < 1 / 10 ^ 6"
proof -
  have "2 ^ 2 \<le> pi ^ 2" by (rule power_mono[OF pi_ge_two]) simp
  then have "1 / 10 ^ 10 * (2 / (2 * (200 / 10 ^ 6))) ^ 2 \<le> 1 / 10 ^ 10 * (pi / (2 * (200 / 10 ^ 6))) ^ 2"
    by (simp add: power_divide field_simps)
  then have "1 / 400 \<le> 1 / 10 ^ 10 * (pi / (2 * (200 / 10 ^ 6))) ^ 2" by (simp add: power_divide)
  then have "1 / 10 ^ 6 * (1 / 400) \<le> 1 / 10 ^ 6 * (1 / 10 ^ 10 * (pi / (2 * (200 / 10 ^ 6))) ^ 2)"
    by (rule mult_left_mono) simp
  then have "40 * 1 / (1 / 10 ^ 6 * (1 / 10 ^ 10 * (pi / (2 * (200 / 10 ^ 6))) ^ 2))
             \<le> 40 * 1 / (1 / 10 ^ 6 * (1 / 400))"
    by (rule divide_left_mono) simp_all
  also have "\<dots> \<le> (10 ^ 12 :: real)" by simp
  finally have T: "40 * 1 / (1 / 10 ^ 6 * (1 / 10 ^ 10 * (pi / (2 * (200 / 10 ^ 6))) ^ 2)) \<le> (10 ^ 12 :: real)" .
  have i: "40 \<le> points" by (simp add: points_def)
  have "\<forall>t\<ge>40 * 1 / (1 / 10 ^ 6 * (1 / 10 ^ 10 * (pi / (2 * (200 / 10 ^ 6))) ^ 2)). \<forall>i\<le>points. \<exists>c.
            concentration (projr (calcProfile (Fin (1 / 10 ^ 10)) (Fin (200 / 10 ^ 6)) (Fin 1) (Fin t)) ! i) = Fin c
            \<and> \<bar>c - 1\<bar> < 1 / 10 ^ 6"
    by (rule steady_state_rate[of "1 / 10 ^ 10" "200 / 10 ^ 6" 1 "1 / 10 ^ 6", THEN conjunct2]) simp_all
  then show ?thesis using T i by blast
qed

end
